theory Spec2Isabelle
  imports Complex_Main
begin

section \<open>The synthetic-data generator of \<^verbatim>\<open>data_generation/data_generator.py\<close>\<close>

text \<open>
  The module draws a population of simulated users from NumPy's process-wide random
  generator (\<^verbatim>\<open>generate_synthetic_data\<close>) and reshapes it into three tables
  (\<^verbatim>\<open>create_dataframes\<close>).

  Conventions of the embedding:
  \<^item> Python floats are modelled as \<^typ>\<open>real\<close> and Python integers as \<^typ>\<open>int\<close>; rounding,
    NaN, infinities and the sign of zero are outside the model, and so is running out of
    memory. The one place where the code tests a float for overflow is modelled by a bound
    on the real value.
  \<^item> A NumPy array or pandas column is a list; a DataFrame is the list of its rows, each
    row a record of the columns.
  \<^item> The global generator of \<^verbatim>\<open>np.random\<close> is an explicit state of type \<open>'g\<close> that
    every call receives and returns. The bit generator itself is a parameter: a record
    of the three primitive draws and the seeding function.
  \<^item> Every exception is a value \<open>Inl e\<close> of a sum type.
  \<^item> \<^verbatim>\<open>describe_dataset\<close> only prints and returns nothing; it is not modelled.
\<close>

subsection \<open>Errors and the generator\<close>

datatype error = ValueError | IndexError | OverflowError

text \<open>
  The primitive draws of the legacy \<^verbatim>\<open>RandomState\<close>: a double in \<open>[0, 1)\<close>, an
  integer in \<open>[0, max]\<close> and a standard normal deviate. \<open>mt_seed\<close> is the state after
  seeding with a 32-bit integer.
\<close>

record 'g np_random =
  mt_seed :: "int \<Rightarrow> 'g"
  rk_double :: "'g \<Rightarrow> real \<times> 'g"
  rk_interval :: "nat \<Rightarrow> 'g \<Rightarrow> nat \<times> 'g"
  rk_gauss :: "'g \<Rightarrow> real \<times> 'g"

text \<open>The contract of the primitive draws: the ranges documented by NumPy.\<close>

definition rng_ok :: "'g np_random \<Rightarrow> bool" where
  "rng_ok R \<longleftrightarrow>
     (\<forall>g. 0 \<le> fst (rk_double R g) \<and> fst (rk_double R g) < 1) \<and>
     (\<forall>m g. fst (rk_interval R m g) \<le> m)"

text \<open>A computation that reads and updates the generator state, or raises.\<close>

type_synonym ('g, 'a) rand = "'g \<Rightarrow> error + ('a \<times> 'g)"

definition rbind :: "('g, 'a) rand \<Rightarrow> ('a \<Rightarrow> ('g, 'b) rand) \<Rightarrow> ('g, 'b) rand" where
  "rbind m f g = (case m g of Inl e \<Rightarrow> Inl e | Inr (x, g') \<Rightarrow> f x g')"

definition rreturn :: "'a \<Rightarrow> ('g, 'a) rand" where
  "rreturn x g = Inr (x, g)"

definition rlift :: "error + 'a \<Rightarrow> ('g, 'a) rand" where
  "rlift r g = (case r of Inl e \<Rightarrow> Inl e | Inr x \<Rightarrow> Inr (x, g))"

text \<open>Filling an array of \<open>n\<close> elements, one primitive draw per element.\<close>

fun draws :: "('g \<Rightarrow> 'a \<times> 'g) \<Rightarrow> nat \<Rightarrow> 'g \<Rightarrow> 'a list \<times> 'g" where
  "draws f 0 g = ([], g)"
| "draws f (Suc n) g =
     (case f g of (x, g1) \<Rightarrow> (case draws f n g1 of (xs, g2) \<Rightarrow> (x # xs, g2)))"

subsection \<open>The calls into \<^verbatim>\<open>np.random\<close>\<close>

text \<open>
  \<^verbatim>\<open>np.random.seed(seed)\<close>: the seed must lie in \<open>[0, 2^32 - 1]\<close>; the previous
  state is discarded.
\<close>

definition seed :: "'g np_random \<Rightarrow> int \<Rightarrow> ('g, unit) rand" where
  "seed R s g = (if s < 0 \<or> 2 ^ 32 - 1 < s then Inl ValueError else Inr ((), mt_seed R s))"

text \<open>\<^verbatim>\<open>np.random.random_sample(size)\<close> and \<^verbatim>\<open>np.random.rand(size)\<close>.\<close>

definition random_sample :: "'g np_random \<Rightarrow> int \<Rightarrow> ('g, real list) rand" where
  "random_sample R sz g =
     (if sz < 0 then Inl ValueError else Inr (draws (rk_double R) (nat sz) g))"

definition rand :: "'g np_random \<Rightarrow> int \<Rightarrow> ('g, real list) rand" where
  "rand R sz = random_sample R sz"

text \<open>
  \<^verbatim>\<open>np.random.randint(low, high, size)\<close>: integers in \<open>[low, high)\<close>, each
  \<open>low\<close> plus a draw from \<open>[0, high - low - 1]\<close>. An empty result is returned
  before the bounds are looked at.
\<close>

definition randint :: "'g np_random \<Rightarrow> int \<Rightarrow> int \<Rightarrow> int \<Rightarrow> ('g, int list) rand" where
  "randint R low high sz g =
     (if sz = 0 then Inr ([], g)
      else if high \<le> low then Inl ValueError
      else if sz < 0 then Inl ValueError
      else case draws (rk_interval R (nat (high - low - 1))) (nat sz) g of
             (ks, g') \<Rightarrow> Inr (map (\<lambda>k. low + int k) ks, g'))"

text \<open>
  The least magnitude that rounds to infinity in double precision: halfway between the
  largest double and \<open>2^1024\<close>.
\<close>

definition float_overflow :: real where
  "float_overflow = 2 ^ 1024 - 2 ^ 970"

text \<open>
  \<^verbatim>\<open>np.random.uniform(low, high, size)\<close> is \<open>low + (high - low) * u\<close> for a double
  \<open>u\<close>. NumPy does not compare \<open>low\<close> with \<open>high\<close>, but it computes
  \<open>high - low\<close> first and raises \<open>OverflowError\<close> when that is not finite.
\<close>

definition uniform :: "'g np_random \<Rightarrow> real \<Rightarrow> real \<Rightarrow> int \<Rightarrow> ('g, real list) rand" where
  "uniform R low high sz g =
     (if float_overflow \<le> \<bar>high - low\<bar> then Inl OverflowError
      else if sz < 0 then Inl ValueError
      else case draws (rk_double R) (nat sz) g of
             (us, g') \<Rightarrow> Inr (map (\<lambda>u. low + (high - low) * u) us, g'))"

text \<open>
  \<^verbatim>\<open>np.random.normal(loc, scale, size)\<close> is \<open>loc + scale * z\<close> for a standard normal
  \<open>z\<close>; a negative \<open>scale\<close> raises. NumPy looks at the sign bit, so it also refuses
  the float \<open>-0.0\<close>, which the real number \<open>0\<close> cannot tell from \<open>+0.0\<close>: at
  \<open>scale = 0\<close> the model follows \<open>+0.0\<close>.
\<close>

definition normal :: "'g np_random \<Rightarrow> real \<Rightarrow> real \<Rightarrow> int \<Rightarrow> ('g, real list) rand" where
  "normal R loc scale sz g =
     (if scale < 0 then Inl ValueError
      else if sz < 0 then Inl ValueError
      else case draws (rk_gauss R) (nat sz) g of
             (zs, g') \<Rightarrow> Inr (map (\<lambda>z. loc + scale * z) zs, g'))"

text \<open>Indexing an array with an array of indices: \<^verbatim>\<open>a[idx]\<close>.\<close>

fun take_indices :: "'a list \<Rightarrow> nat list \<Rightarrow> error + 'a list" where
  "take_indices a [] = Inr []"
| "take_indices a (k # ks) =
     (if length a \<le> k then Inl IndexError
      else case take_indices a ks of Inl e \<Rightarrow> Inl e | Inr xs \<Rightarrow> Inr (a ! k # xs))"

fun cumsum :: "real \<Rightarrow> real list \<Rightarrow> real list" where
  "cumsum acc [] = []"
| "cumsum acc (p # ps) = (acc + p) # cumsum (acc + p) ps"

text \<open>
  \<^verbatim>\<open>cdf.searchsorted(u, side='right')\<close> on an ascending array: the number of
  entries that are at most \<open>u\<close>.
\<close>

definition searchsorted_right :: "real list \<Rightarrow> real \<Rightarrow> nat" where
  "searchsorted_right cdf u = length (filter (\<lambda>c. c \<le> u) cdf)"

text \<open>
  \<^verbatim>\<open>np.random.choice(a, size, p=p)\<close> with replacement. An empty \<open>a\<close> is refused
  unless no sample is taken. Without \<open>p\<close> the indices are \<^verbatim>\<open>randint(0, len(a), size)\<close>;
  with \<open>p\<close>, which must have the length of \<open>a\<close>, be non-negative and sum to one up to
  \<open>sqrt eps = 2^-26\<close>, they are found by inverting the cumulative distribution at
  as many doubles as samples. NumPy keeps strings in a fixed-width array, which drops the
  NUL characters a string ends with; the model returns the entries as they are, so it
  follows the code for lists none of whose strings ends in NUL.
\<close>

definition choice :: "'g np_random \<Rightarrow> 'a list \<Rightarrow> int \<Rightarrow> real list option \<Rightarrow> ('g, 'a list) rand" where
  "choice R a sz p g =
     (if a = [] \<and> sz \<noteq> 0 then Inl ValueError
      else case p of
        None \<Rightarrow>
          (case randint R 0 (int (length a)) sz g of
             Inl e \<Rightarrow> Inl e
           | Inr (idx, g') \<Rightarrow> rlift (take_indices a (map nat idx)) g')
      | Some ps \<Rightarrow>
          (if length ps \<noteq> length a then Inl ValueError
           else if list_ex (\<lambda>q. q < 0) ps then Inl ValueError
           else if 1 / 2 ^ 26 < \<bar>sum_list ps - 1\<bar> then Inl ValueError
           else let cdf = map (\<lambda>c. c / last (cumsum 0 ps)) (cumsum 0 ps)
                in case random_sample R sz g of
                     Inl e \<Rightarrow> Inl e
                   | Inr (us, g') \<Rightarrow>
                       rlift (take_indices a (map (searchsorted_right cdf) us)) g'))"

subsection \<open>\<^verbatim>\<open>list.index\<close> and \<^verbatim>\<open>Series.apply\<close>\<close>

text \<open>The position of the first occurrence; a value that is absent raises.\<close>

fun index :: "'a list \<Rightarrow> 'a \<Rightarrow> error + nat" where
  "index [] x = Inl ValueError"
| "index (y # ys) x =
     (if y = x then Inr 0
      else case index ys x of Inl e \<Rightarrow> Inl e | Inr k \<Rightarrow> Inr (Suc k))"

fun series_apply :: "('a \<Rightarrow> error + 'b) \<Rightarrow> 'a list \<Rightarrow> error + 'b list" where
  "series_apply f [] = Inr []"
| "series_apply f (x # xs) =
     (case f x of
        Inl e \<Rightarrow> Inl e
      | Inr y \<Rightarrow> (case series_apply f xs of Inl e \<Rightarrow> Inl e | Inr ys \<Rightarrow> Inr (y # ys)))"

text \<open>The lambdas of lines 49 to 51: \<^verbatim>\<open>lambda x: vocabulary.index(x) % K\<close>.\<close>

definition index_mod :: "'a list \<Rightarrow> nat \<Rightarrow> 'a \<Rightarrow> error + nat" where
  "index_mod vocabulary K x =
     (case index vocabulary x of Inl e \<Rightarrow> Inl e | Inr k \<Rightarrow> Inr (k mod K))"

text \<open>\<^verbatim>\<open>np.where(cond, x, y)\<close>, element by element.\<close>

definition np_where :: "bool list \<Rightarrow> 'a list \<Rightarrow> 'a list \<Rightarrow> 'a list" where
  "np_where cond xs ys = map2 (\<lambda>c (x, y). if c then x else y) cond (zip xs ys)"

subsection \<open>The population table\<close>

record user =
  userid :: int
  country :: string
  platform :: string
  user_segment :: string
  abgroup :: string
  age :: int
  engagement_score :: real
  country_idx :: nat
  platform_idx :: nat
  segment_idx :: nat
  "value" :: real
  pre_test_value :: real

text \<open>
  The local variables of \<^verbatim>\<open>generate_synthetic_data\<close> when it returns: the table
  \<open>df\<close>, the named intermediate arrays, and the arrays of random numbers that the source
  passes on without naming them.
\<close>

record locals =
  df :: "user list"
  base_value :: "real list"
  country_effect :: "real list"
  platform_effect :: "real list"
  segment_effect :: "real list"
  category_effect :: "real list"
  treatment_draw :: "real list"
  other_draw :: "real list"
  group_effect :: "real list"
  value_noise :: "real list"
  pre_coupling :: "real list"
  pre_scale :: "real list"
  pre_oscillation :: "real list"
  pre_noise :: "real list"

text \<open>Line 46, for one user: \<^verbatim>\<open>10 + age / 10 + engagement_score\<close>.\<close>

definition base_value_of :: "int \<Rightarrow> real \<Rightarrow> real" where
  "base_value_of a e = 10 + real_of_int a / 10 + e"

text \<open>The bounds handed to \<^verbatim>\<open>np.random.uniform\<close> on lines 63 and 64.\<close>

definition treatment_range :: "real \<Rightarrow> real \<times> real" where
  "treatment_range base_increase_percentage =
     (- 1 * base_increase_percentage, base_increase_percentage * 3)"

definition other_range :: "real \<Rightarrow> real \<times> real" where
  "other_range base_increase_percentage =
     (- 2 * base_increase_percentage, base_increase_percentage * 2)"

text \<open>\<^verbatim>\<open>pd.DataFrame\<close> of the columns, row by row.\<close>

definition DataFrame ::
  "int list \<Rightarrow> string list \<Rightarrow> string list \<Rightarrow> string list \<Rightarrow> string list \<Rightarrow> int list \<Rightarrow>
   real list \<Rightarrow> nat list \<Rightarrow> nat list \<Rightarrow> nat list \<Rightarrow> real list \<Rightarrow> real list \<Rightarrow> user list" where
  "DataFrame c_userid c_country c_platform c_segment c_abgroup c_age c_engagement
      c_country_idx c_platform_idx c_segment_idx c_value c_pre =
     map (\<lambda>i. \<lparr>userid = c_userid ! i, country = c_country ! i, platform = c_platform ! i,
               user_segment = c_segment ! i, abgroup = c_abgroup ! i, age = c_age ! i,
               engagement_score = c_engagement ! i, country_idx = c_country_idx ! i,
               platform_idx = c_platform_idx ! i, segment_idx = c_segment_idx ! i,
               value = c_value ! i, pre_test_value = c_pre ! i\<rparr>)
       [0 ..< length c_userid]"

text \<open>
  \<^verbatim>\<open>generate_synthetic_data\<close>, lines 29 to 78, in the order of the source. The
  incoming generator state is the one left by whatever ran before.
\<close>

definition generate_synthetic_data_locals ::
  "'g np_random \<Rightarrow> int \<Rightarrow> string list \<Rightarrow> string list \<Rightarrow> string list \<Rightarrow> string list \<Rightarrow>
   real \<Rightarrow> real \<Rightarrow> int \<Rightarrow> ('g, locals) rand" where
  "generate_synthetic_data_locals R num_users countries platforms user_segments ab_groups
      base_increase_percentage noise_level sd =
   rbind (seed R sd) (\<lambda>_.
   rbind (choice R countries num_users None) (\<lambda>c_country.
   rbind (choice R platforms num_users None) (\<lambda>c_platform.
   rbind (choice R user_segments num_users None) (\<lambda>c_segment.
   rbind (choice R ab_groups num_users (Some [1 / 3, 1 / 3, 1 / 3])) (\<lambda>c_abgroup.
   rbind (randint R 18 65 num_users) (\<lambda>c_age.
   rbind (rand R num_users) (\<lambda>r.
   let c_userid = [1 .. num_users];
       c_engagement = map (\<lambda>x. x * 10) r;
       v_base = map2 base_value_of c_age c_engagement in
   rbind (rlift (series_apply (index_mod countries 3) c_country)) (\<lambda>c_country_idx.
   rbind (rlift (series_apply (index_mod platforms 2) c_platform)) (\<lambda>c_platform_idx.
   rbind (rlift (series_apply (index_mod user_segments 4) c_segment)) (\<lambda>c_segment_idx.
   rbind (uniform R (- 1) 5 num_users) (\<lambda>u1.
   rbind (uniform R (- 1) 5 num_users) (\<lambda>u2.
   rbind (uniform R (- 1) 5 num_users) (\<lambda>u3.
   let v_country = map2 (\<lambda>u k. u * real k) u1 c_country_idx;
       v_platform = map2 (\<lambda>u k. u * real k) u2 c_platform_idx;
       v_segment = map2 (\<lambda>u k. u * real k) u3 c_segment_idx;
       v_category = map2 (+) (map2 (+) v_country v_platform) v_segment in
   rbind (uniform R (fst (treatment_range base_increase_percentage))
            (snd (treatment_range base_increase_percentage)) num_users) (\<lambda>t.
   rbind (uniform R (fst (other_range base_increase_percentage))
            (snd (other_range base_increase_percentage)) num_users) (\<lambda>w.
   let v_group = np_where (map (\<lambda>x. x = ''b'') c_abgroup) t w in
   rbind (normal R 0 noise_level num_users) (\<lambda>nz.
   let c_value =
         map2 (+)
           (map2 (*) (map2 (*) v_base (map (\<lambda>c. 1 + c) v_category))
              (map (\<lambda>e. 1 + e) v_group))
           nz in
   rbind (normal R 1 0.5 num_users) (\<lambda>n1.
   rbind (normal R 0 0.05 num_users) (\<lambda>n2.
   rbind (uniform R (- 1) 1 num_users) (\<lambda>u4.
   rbind (normal R (- 1) 1 num_users) (\<lambda>n3.
   let c_pre =
         map2 (+)
           (map2 (+)
              (map2 (*)
                 (map2 (*) v_base (map (\<lambda>c. 1 + c) (map2 (*) n1 v_category)))
                 (map (\<lambda>e. 1 + e) n2))
              (map2 (*) (map (\<lambda>e. 0.5 * sin (e / 2)) c_engagement) u4))
           n3 in
   rreturn
     \<lparr>df = DataFrame c_userid c_country c_platform c_segment c_abgroup c_age c_engagement
             c_country_idx c_platform_idx c_segment_idx c_value c_pre,
      base_value = v_base, country_effect = v_country, platform_effect = v_platform,
      segment_effect = v_segment, category_effect = v_category, treatment_draw = t,
      other_draw = w, group_effect = v_group, value_noise = nz, pre_coupling = n1,
      pre_scale = n2, pre_oscillation = u4, pre_noise = n3\<rparr>))))))))))))))))))))"

text \<open>What the caller gets: the table, or the exception.\<close>

definition generate_synthetic_data ::
  "'g np_random \<Rightarrow> int \<Rightarrow> string list \<Rightarrow> string list \<Rightarrow> string list \<Rightarrow> string list \<Rightarrow>
   real \<Rightarrow> real \<Rightarrow> int \<Rightarrow> 'g \<Rightarrow> error + user list" where
  "generate_synthetic_data R num_users countries platforms user_segments ab_groups
      base_increase_percentage noise_level sd g =
     (case generate_synthetic_data_locals R num_users countries platforms user_segments
             ab_groups base_increase_percentage noise_level sd g of
        Inl e \<Rightarrow> Inl e
      | Inr (L, g') \<Rightarrow> Inr (df L))"

subsection \<open>The projected tables\<close>

text \<open>A \<^verbatim>\<open>pd.Timestamp\<close> at midnight: its calendar date, compared field by field.\<close>

record timestamp =
  year :: nat
  month :: nat
  day :: nat

definition timestamp_less :: "timestamp \<Rightarrow> timestamp \<Rightarrow> bool" where
  "timestamp_less s t \<longleftrightarrow>
     year s < year t \<or>
     (year s = year t \<and> (month s < month t \<or> (month s = month t \<and> day s < day t)))"

text \<open>The three literals given to \<^verbatim>\<open>pd.to_datetime\<close> on lines 82, 89 and 96.\<close>

definition ts_2022_12_10 :: timestamp where
  "ts_2022_12_10 = \<lparr>year = 2022, month = 12, day = 10\<rparr>"

definition ts_2022_12_01 :: timestamp where
  "ts_2022_12_01 = \<lparr>year = 2022, month = 12, day = 1\<rparr>"

definition ts_2022_12_05 :: timestamp where
  "ts_2022_12_05 = \<lparr>year = 2022, month = 12, day = 5\<rparr>"

record event =
  ev_timestamp :: timestamp
  ev_userid :: int
  event_name :: string
  purchase_value :: real

record allocation =
  al_timestamp :: timestamp
  al_userid :: int
  al_abgroup :: string

record properties =
  pr_userid :: int
  pr_age :: int
  pr_country :: string
  device_type :: string
  membership_status :: string

text \<open>
  \<^verbatim>\<open>create_dataframes\<close>, lines 80 to 112. \<^verbatim>\<open>pd.concat\<close> puts the rows of
  \<open>event_data1\<close> before those of \<open>event_data2\<close>.
\<close>

definition create_dataframes :: "user list \<Rightarrow> event list \<times> allocation list \<times> properties list" where
  "create_dataframes d =
     (let event_data1 =
            map (\<lambda>u. \<lparr>ev_timestamp = ts_2022_12_10, ev_userid = userid u,
                      event_name = ''purchase'', purchase_value = value u\<rparr>) d;
          event_data2 =
            map (\<lambda>u. \<lparr>ev_timestamp = ts_2022_12_01, ev_userid = userid u,
                      event_name = ''purchase'', purchase_value = pre_test_value u\<rparr>) d;
          user_allocations =
            map (\<lambda>u. \<lparr>al_timestamp = ts_2022_12_05, al_userid = userid u,
                      al_abgroup = abgroup u\<rparr>) d;
          user_properties =
            map (\<lambda>u. \<lparr>pr_userid = userid u, pr_age = age u, pr_country = country u,
                      device_type = platform u, membership_status = ''Free''\<rparr>) d;
          event_data = event_data1 @ event_data2
      in (event_data, user_allocations, user_properties))"

subsection \<open>A small generator for running the model\<close>

text \<open>
  A counter as generator state: each draw reads the counter and advances it. It meets
  the contract \<open>rng_ok\<close> and makes the model computable on concrete inputs.
\<close>

definition counter_rng :: "nat np_random" where
  "counter_rng =
     \<lparr>mt_seed = (\<lambda>s. nat s),
      rk_double = (\<lambda>g. (real (g mod 4) / 4, g + 1)),
      rk_interval = (\<lambda>m g. (g mod (m + 1), g + 1)),
      rk_gauss = (\<lambda>g. (real_of_int (int (g mod 3) - 1), g + 1))\<rparr>"

section \<open>Properties\<close>

subsection \<open>The generator calls\<close>

lemma length_draws: "length (fst (draws f n g)) = n"
  by (induction n arbitrary: g) (simp_all add: case_prod_unfold)

lemma draws_all:
  assumes "\<And>g. P (fst (f g))"
  shows "list_all P (fst (draws f n g))"
  using assms by (induction n arbitrary: g) (simp_all add: case_prod_unfold)

lemma rbind_Inr_iff:
  "rbind m f g = Inr r \<longleftrightarrow> (\<exists>x g'. m g = Inr (x, g') \<and> f x g' = Inr r)"
  by (auto simp: rbind_def split: sum.splits)

lemma rlift_Inr_iff: "rlift r g = Inr (x, g') \<longleftrightarrow> r = Inr x \<and> g' = g"
  by (auto simp: rlift_def split: sum.splits)

lemma rreturn_Inr_iff: "rreturn x g = Inr (y, g') \<longleftrightarrow> y = x \<and> g' = g"
  by (auto simp: rreturn_def)

lemma seed_Inr_iff:
  "seed R s g = Inr (u, g') \<longleftrightarrow> 0 \<le> s \<and> s \<le> 2 ^ 32 - 1 \<and> g' = mt_seed R s"
  by (auto simp: seed_def)

lemma random_sample_Inr_iff:
  "random_sample R n g = Inr (xs, g') \<longleftrightarrow>
     0 \<le> n \<and> xs = fst (draws (rk_double R) (nat n) g) \<and> g' = snd (draws (rk_double R) (nat n) g)"
  by (auto simp: random_sample_def)

lemma uniform_Inr_iff:
  "uniform R lo hi n g = Inr (xs, g') \<longleftrightarrow>
     \<bar>hi - lo\<bar> < float_overflow \<and> 0 \<le> n \<and> xs = map (\<lambda>u. lo + (hi - lo) * u) (fst (draws (rk_double R) (nat n) g)) \<and>
     g' = snd (draws (rk_double R) (nat n) g)"
  by (auto simp: uniform_def split: prod.splits)

lemma normal_Inr_iff:
  "normal R loc scale n g = Inr (xs, g') \<longleftrightarrow>
     0 \<le> scale \<and> 0 \<le> n \<and> xs = map (\<lambda>z. loc + scale * z) (fst (draws (rk_gauss R) (nat n) g)) \<and>
     g' = snd (draws (rk_gauss R) (nat n) g)"
  by (auto simp: normal_def split: prod.splits)

lemma randint_Inr_iff:
  "randint R lo hi n g = Inr (xs, g') \<longleftrightarrow>
     0 \<le> n \<and> (n = 0 \<or> lo < hi) \<and>
     xs = map (\<lambda>k. lo + int k) (fst (draws (rk_interval R (nat (hi - lo - 1))) (nat n) g)) \<and>
     g' = snd (draws (rk_interval R (nat (hi - lo - 1))) (nat n) g)"
  by (auto simp: randint_def split: prod.splits)

lemma take_indices_eq:
  "take_indices a ks =
     (if list_all (\<lambda>k. k < length a) ks then Inr (map ((!) a) ks) else Inl IndexError)"
  by (induction ks) auto

lemma take_indices_Inr_iff:
  "take_indices a ks = Inr xs \<longleftrightarrow> list_all (\<lambda>k. k < length a) ks \<and> xs = map ((!) a) ks"
  by (auto simp: take_indices_eq)

lemma nat_int_length_pred: "nat (int (length a) - 0 - 1) = length a - 1"
  by simp

lemma choice_None_eq:
  "choice R a n None g =
     (if a = [] \<and> n \<noteq> 0 then Inl ValueError
      else if n < 0 then Inl ValueError
      else if list_all (\<lambda>k. k < length a) (fst (draws (rk_interval R (length a - 1)) (nat n) g))
      then Inr (map ((!) a) (fst (draws (rk_interval R (length a - 1)) (nat n) g)),
                snd (draws (rk_interval R (length a - 1)) (nat n) g))
      else Inl IndexError)"
  unfolding choice_def randint_def rlift_def take_indices_eq option.case nat_int_length_pred
  by (simp add: case_prod_unfold o_def)

lemma choice_None_Inr_iff:
  "choice R a n None g = Inr (xs, g') \<longleftrightarrow>
     0 \<le> n \<and> (n = 0 \<or> a \<noteq> []) \<and>
     list_all (\<lambda>k. k < length a) (fst (draws (rk_interval R (length a - 1)) (nat n) g)) \<and>
     xs = map ((!) a) (fst (draws (rk_interval R (length a - 1)) (nat n) g)) \<and>
     g' = snd (draws (rk_interval R (length a - 1)) (nat n) g)"
  unfolding choice_None_eq by auto

lemma cdf_thirds:
  "map (\<lambda>c. c / last (cumsum 0 [1 / 3, 1 / 3, 1 / 3])) (cumsum 0 [1 / 3, 1 / 3, 1 / 3 :: real])
     = [1 / 3, 2 / 3, 1]"
  by simp

lemma choice_thirds_Inr_iff:
  "choice R a n (Some [1 / 3, 1 / 3, 1 / 3]) g = Inr (xs, g') \<longleftrightarrow>
     length a = 3 \<and> 0 \<le> n \<and>
     list_all (\<lambda>u. searchsorted_right [1 / 3, 2 / 3, 1] u < 3) (fst (draws (rk_double R) (nat n) g)) \<and>
     xs = map (\<lambda>u. a ! searchsorted_right [1 / 3, 2 / 3, 1] u) (fst (draws (rk_double R) (nat n) g)) \<and>
     g' = snd (draws (rk_double R) (nat n) g)"
  apply (simp only: choice_def option.case Let_def cdf_thirds)
  apply (auto simp: random_sample_def rlift_Inr_iff take_indices_Inr_iff o_def list_all_iff
        split: sum.splits prod.splits)
  done


lemma index_mem: "x \<in> set xs \<Longrightarrow> \<exists>k. index xs x = Inr k \<and> k < length xs"
  by (induction xs) auto

lemma index_Inr_nth: "index xs x = Inr k \<Longrightarrow> k < length xs \<and> xs ! k = x"
  by (induction xs arbitrary: k) (auto split: if_splits sum.splits)

lemma series_apply_Inr_iff:
  "series_apply f xs = Inr ys \<longleftrightarrow> list_all2 (\<lambda>x y. f x = Inr y) xs ys"
proof (induction xs arbitrary: ys)
  case Nil
  show ?case by auto
next
  case (Cons x xs)
  show ?case
    by (cases "f x"; cases "series_apply f xs")
       (auto simp: list_all2_Cons1 Cons.IH [symmetric])
qed

lemmas op_iffs = rbind_Inr_iff rlift_Inr_iff rreturn_Inr_iff seed_Inr_iff choice_None_Inr_iff
  choice_thirds_Inr_iff randint_Inr_iff rand_def random_sample_Inr_iff uniform_Inr_iff normal_Inr_iff

lemma draws_counter_double:
  "draws (rk_double counter_rng) n g = (map (\<lambda>k. real (k mod 4) / 4) [g ..< g + n], g + n)"
  by (induction n arbitrary: g) (simp_all add: counter_rng_def upt_rec)

lemma draws_counter_gauss:
  "draws (rk_gauss counter_rng) n g = (map (\<lambda>k. real_of_int (int (k mod 3) - 1)) [g ..< g + n], g + n)"
  by (induction n arbitrary: g) (simp_all add: counter_rng_def upt_rec)

lemma draws_counter_interval:
  "draws (rk_interval counter_rng m) n g = (map (\<lambda>k. k mod (m + 1)) [g ..< g + n], g + n)"
  by (induction n arbitrary: g) (simp_all add: counter_rng_def upt_rec)


subsection \<open>What a run that returns has done\<close>

lemma length_DataFrame:
  "length (DataFrame c1 c2 c3 c4 c5 c6 c7 c8 c9 c10 c11 c12) = length c1"
  by (simp add: DataFrame_def)

lemma nth_DataFrame:
  "i < length c1 \<Longrightarrow>
   DataFrame c1 c2 c3 c4 c5 c6 c7 c8 c9 c10 c11 c12 ! i =
     \<lparr>userid = c1 ! i, country = c2 ! i, platform = c3 ! i, user_segment = c4 ! i,
      abgroup = c5 ! i, age = c6 ! i, engagement_score = c7 ! i, country_idx = c8 ! i,
      platform_idx = c9 ! i, segment_idx = c10 ! i, value = c11 ! i, pre_test_value = c12 ! i\<rparr>"
  by (simp add: DataFrame_def)

lemma length_np_where:
  "length (np_where c xs ys) = min (length c) (min (length xs) (length ys))"
  by (simp add: np_where_def)

lemma nth_np_where:
  "i < length c \<Longrightarrow> i < length xs \<Longrightarrow> i < length ys \<Longrightarrow>
   np_where c xs ys ! i = (if c ! i then xs ! i else ys ! i)"
  by (simp add: np_where_def)

lemma gen_locals_runE:
  assumes "generate_synthetic_data_locals R n cs ps ss abg b nl sd g0 = Inr (L, gf)"
  obtains g1 g2 g3 g4 g5 g6 g7 g8 g9 g10 g11 g12 g13 g14 g15 g16
     c_country c_platform c_segment c_abgroup c_age r ci pi si u1 u2 u3 c_value c_pre
  where "seed R sd g0 = Inr ((), g1)"
    and "choice R cs n None g1 = Inr (c_country, g2)"
    and "choice R ps n None g2 = Inr (c_platform, g3)"
    and "choice R ss n None g3 = Inr (c_segment, g4)"
    and "choice R abg n (Some [1 / 3, 1 / 3, 1 / 3]) g4 = Inr (c_abgroup, g5)"
    and "randint R 18 65 n g5 = Inr (c_age, g6)"
    and "rand R n g6 = Inr (r, g7)"
    and "series_apply (index_mod cs 3) c_country = Inr ci"
    and "series_apply (index_mod ps 2) c_platform = Inr pi"
    and "series_apply (index_mod ss 4) c_segment = Inr si"
    and "uniform R (- 1) 5 n g7 = Inr (u1, g8)"
    and "uniform R (- 1) 5 n g8 = Inr (u2, g9)"
    and "uniform R (- 1) 5 n g9 = Inr (u3, g10)"
    and "uniform R (fst (treatment_range b)) (snd (treatment_range b)) n g10 =
           Inr (treatment_draw L, g11)"
    and "uniform R (fst (other_range b)) (snd (other_range b)) n g11 = Inr (other_draw L, g12)"
    and "normal R 0 nl n g12 = Inr (value_noise L, g13)"
    and "normal R 1 0.5 n g13 = Inr (pre_coupling L, g14)"
    and "normal R 0 0.05 n g14 = Inr (pre_scale L, g15)"
    and "uniform R (- 1) 1 n g15 = Inr (pre_oscillation L, g16)"
    and "normal R (- 1) 1 n g16 = Inr (pre_noise L, gf)"
    and "df L = DataFrame [1 .. n] c_country c_platform c_segment c_abgroup c_age
                  (map (\<lambda>x. x * 10) r) ci pi si c_value c_pre"
    and "base_value L = map2 base_value_of c_age (map (\<lambda>x. x * 10) r)"
    and "country_effect L = map2 (\<lambda>u k. u * real k) u1 ci"
    and "platform_effect L = map2 (\<lambda>u k. u * real k) u2 pi"
    and "segment_effect L = map2 (\<lambda>u k. u * real k) u3 si"
    and "category_effect L =
           map2 (+) (map2 (+) (country_effect L) (platform_effect L)) (segment_effect L)"
    and "group_effect L =
           np_where (map (\<lambda>x. x = ''b'') c_abgroup) (treatment_draw L) (other_draw L)"
    and "c_value =
           map2 (+)
             (map2 (*) (map2 (*) (base_value L) (map (\<lambda>c. 1 + c) (category_effect L)))
                (map (\<lambda>e. 1 + e) (group_effect L)))
             (value_noise L)"
    and "c_pre =
           map2 (+)
             (map2 (+)
                (map2 (*)
                   (map2 (*) (base_value L)
                      (map (\<lambda>c. 1 + c) (map2 (*) (pre_coupling L) (category_effect L))))
                   (map (\<lambda>e. 1 + e) (pre_scale L)))
                (map2 (*) (map (\<lambda>e. 0.5 * sin (e / 2)) (map (\<lambda>x. x * 10) r))
                   (pre_oscillation L)))
             (pre_noise L)"
  using assms
  unfolding generate_synthetic_data_locals_def Let_def rbind_Inr_iff rlift_Inr_iff
    rreturn_Inr_iff
  by (elim exE conjE) auto

lemma choice_None_props:
  assumes "choice R a n None g = Inr (xs, g')"
  shows "length xs = nat n \<and> set xs \<subseteq> set a"
  using assms by (auto simp: choice_None_Inr_iff length_draws list_all_iff)

lemma choice_thirds_props:
  assumes "choice R a n (Some [1 / 3, 1 / 3, 1 / 3]) g = Inr (xs, g')"
  shows "length a = 3 \<and> length xs = nat n \<and> set xs \<subseteq> set a"
  using assms by (auto simp: choice_thirds_Inr_iff length_draws list_all_iff)

lemma series_apply_props:
  assumes "series_apply f xs = Inr ys"
  shows "length ys = length xs \<and> (\<forall>i<length xs. f (xs ! i) = Inr (ys ! i))"
  using assms by (auto simp: series_apply_Inr_iff list_all2_conv_all_nth)

lemma gen_locals_shape:
  assumes "generate_synthetic_data_locals R n cs ps ss abg b nl sd g0 = Inr (L, gf)"
  shows "0 \<le> n \<and> length (df L) = nat n \<and> length (base_value L) = nat n \<and>
         length (country_effect L) = nat n \<and> length (platform_effect L) = nat n \<and>
         length (segment_effect L) = nat n \<and> length (category_effect L) = nat n \<and>
         length (treatment_draw L) = nat n \<and> length (other_draw L) = nat n \<and>
         length (group_effect L) = nat n \<and> length (value_noise L) = nat n \<and>
         length (pre_coupling L) = nat n \<and> length (pre_scale L) = nat n \<and>
         length (pre_oscillation L) = nat n \<and> length (pre_noise L) = nat n"
proof -
  from assms obtain g1 g2 g3 g4 g5 g6 g7 g8 g9 g10 g11 g12 g13 g14 g15 g16
     c_country c_platform c_segment c_abgroup c_age r ci pi si u1 u2 u3 c_value c_pre
  where ops: "seed R sd g0 = Inr ((), g1)"
     "choice R cs n None g1 = Inr (c_country, g2)"
     "choice R ps n None g2 = Inr (c_platform, g3)"
     "choice R ss n None g3 = Inr (c_segment, g4)"
     "choice R abg n (Some [1 / 3, 1 / 3, 1 / 3]) g4 = Inr (c_abgroup, g5)"
     "randint R 18 65 n g5 = Inr (c_age, g6)"
     "rand R n g6 = Inr (r, g7)"
     "series_apply (index_mod cs 3) c_country = Inr ci"
     "series_apply (index_mod ps 2) c_platform = Inr pi"
     "series_apply (index_mod ss 4) c_segment = Inr si"
     "uniform R (- 1) 5 n g7 = Inr (u1, g8)"
     "uniform R (- 1) 5 n g8 = Inr (u2, g9)"
     "uniform R (- 1) 5 n g9 = Inr (u3, g10)"
     "uniform R (fst (treatment_range b)) (snd (treatment_range b)) n g10 =
           Inr (treatment_draw L, g11)"
     "uniform R (fst (other_range b)) (snd (other_range b)) n g11 = Inr (other_draw L, g12)"
     "normal R 0 nl n g12 = Inr (value_noise L, g13)"
     "normal R 1 0.5 n g13 = Inr (pre_coupling L, g14)"
     "normal R 0 0.05 n g14 = Inr (pre_scale L, g15)"
     "uniform R (- 1) 1 n g15 = Inr (pre_oscillation L, g16)"
     "normal R (- 1) 1 n g16 = Inr (pre_noise L, gf)"
    and L: "df L = DataFrame [1 .. n] c_country c_platform c_segment c_abgroup c_age
                  (map (\<lambda>x. x * 10) r) ci pi si c_value c_pre"
     "base_value L = map2 base_value_of c_age (map (\<lambda>x. x * 10) r)"
     "country_effect L = map2 (\<lambda>u k. u * real k) u1 ci"
     "platform_effect L = map2 (\<lambda>u k. u * real k) u2 pi"
     "segment_effect L = map2 (\<lambda>u k. u * real k) u3 si"
     "category_effect L =
           map2 (+) (map2 (+) (country_effect L) (platform_effect L)) (segment_effect L)"
     "group_effect L =
           np_where (map (\<lambda>x. x = ''b'') c_abgroup) (treatment_draw L) (other_draw L)"
    by (rule gen_locals_runE)
  have n0: "0 \<le> n"
    using ops(7) by (simp add: rand_def random_sample_Inr_iff)
  have l1: "length c_country = nat n" "length c_platform = nat n" "length c_segment = nat n"
    "length c_abgroup = nat n"
    using ops(2,3,4,5) by (simp_all add: choice_None_props choice_thirds_props)
  have l3: "length c_age = nat n" "length r = nat n"
    using ops(6,7) by (simp_all add: randint_Inr_iff rand_def random_sample_Inr_iff length_draws)
  have l4: "length ci = nat n" "length pi = nat n" "length si = nat n"
    using ops(8,9,10) l1 by (auto dest: series_apply_props)
  have l5: "length u1 = nat n" "length u2 = nat n" "length u3 = nat n"
    "length (treatment_draw L) = nat n" "length (other_draw L) = nat n"
    "length (pre_oscillation L) = nat n"
    using ops(11,12,13,14,15,19) by (simp_all add: uniform_Inr_iff length_draws)
  have l6: "length (value_noise L) = nat n" "length (pre_coupling L) = nat n"
    "length (pre_scale L) = nat n" "length (pre_noise L) = nat n"
    using ops(16,17,18,20) by (simp_all add: normal_Inr_iff length_draws)
  have l7: "length (df L) = nat n"
    unfolding L length_DataFrame using n0 by simp
  have l8: "length (base_value L) = nat n" "length (country_effect L) = nat n"
    "length (platform_effect L) = nat n" "length (segment_effect L) = nat n"
    unfolding L by (simp_all add: l1 l3 l4 l5)
  have l9: "length (category_effect L) = nat n"
    unfolding L(6) by (simp add: l8)
  have l10: "length (group_effect L) = nat n"
    unfolding L(7) by (simp add: length_np_where l1 l5)
  show ?thesis
    using n0 l5 l6 l7 l8 l9 l10 by simp
qed


lemma nth_upto_from_one: "i < nat n \<Longrightarrow> [1 .. n] ! i = 1 + int i"
  by (simp add: nth_upto)

lemma gen_locals_row:
  assumes "generate_synthetic_data_locals R n cs ps ss abg b nl sd g0 = Inr (L, gf)"
    and "i < length (df L)"
  shows "userid (df L ! i) = 1 + int i"
    and "value (df L ! i) =
           base_value L ! i * (1 + category_effect L ! i) * (1 + group_effect L ! i) +
           value_noise L ! i"
    and "pre_test_value (df L ! i) =
           base_value L ! i * (1 + pre_coupling L ! i * category_effect L ! i) *
             (1 + pre_scale L ! i) +
           0.5 * sin (engagement_score (df L ! i) / 2) * pre_oscillation L ! i +
           pre_noise L ! i"
    and "base_value L ! i = base_value_of (age (df L ! i)) (engagement_score (df L ! i))"
    and "\<exists>u. country_effect L ! i = u * real (country_idx (df L ! i))"
    and "\<exists>u. platform_effect L ! i = u * real (platform_idx (df L ! i))"
    and "\<exists>u. segment_effect L ! i = u * real (segment_idx (df L ! i))"
    and "category_effect L ! i =
           country_effect L ! i + platform_effect L ! i + segment_effect L ! i"
    and "group_effect L ! i =
           (if abgroup (df L ! i) = ''b'' then treatment_draw L ! i else other_draw L ! i)"
    and "index_mod cs 3 (country (df L ! i)) = Inr (country_idx (df L ! i))"
    and "index_mod ps 2 (platform (df L ! i)) = Inr (platform_idx (df L ! i))"
    and "index_mod ss 4 (user_segment (df L ! i)) = Inr (segment_idx (df L ! i))"
    and "country (df L ! i) \<in> set cs"
    and "platform (df L ! i) \<in> set ps"
    and "user_segment (df L ! i) \<in> set ss"
    and "abgroup (df L ! i) \<in> set abg"
proof -
  from assms(1) obtain g1 g2 g3 g4 g5 g6 g7 g8 g9 g10 g11 g12 g13 g14 g15 g16
     c_country c_platform c_segment c_abgroup c_age r ci pi si u1 u2 u3 c_value c_pre
  where ops: "seed R sd g0 = Inr ((), g1)"
     "choice R cs n None g1 = Inr (c_country, g2)"
     "choice R ps n None g2 = Inr (c_platform, g3)"
     "choice R ss n None g3 = Inr (c_segment, g4)"
     "choice R abg n (Some [1 / 3, 1 / 3, 1 / 3]) g4 = Inr (c_abgroup, g5)"
     "randint R 18 65 n g5 = Inr (c_age, g6)"
     "rand R n g6 = Inr (r, g7)"
     "series_apply (index_mod cs 3) c_country = Inr ci"
     "series_apply (index_mod ps 2) c_platform = Inr pi"
     "series_apply (index_mod ss 4) c_segment = Inr si"
     "uniform R (- 1) 5 n g7 = Inr (u1, g8)"
     "uniform R (- 1) 5 n g8 = Inr (u2, g9)"
     "uniform R (- 1) 5 n g9 = Inr (u3, g10)"
     "uniform R (fst (treatment_range b)) (snd (treatment_range b)) n g10 =
           Inr (treatment_draw L, g11)"
     "uniform R (fst (other_range b)) (snd (other_range b)) n g11 = Inr (other_draw L, g12)"
     "normal R 0 nl n g12 = Inr (value_noise L, g13)"
     "normal R 1 0.5 n g13 = Inr (pre_coupling L, g14)"
     "normal R 0 0.05 n g14 = Inr (pre_scale L, g15)"
     "uniform R (- 1) 1 n g15 = Inr (pre_oscillation L, g16)"
     "normal R (- 1) 1 n g16 = Inr (pre_noise L, gf)"
    and L: "df L = DataFrame [1 .. n] c_country c_platform c_segment c_abgroup c_age
                  (map (\<lambda>x. x * 10) r) ci pi si c_value c_pre"
     "base_value L = map2 base_value_of c_age (map (\<lambda>x. x * 10) r)"
     "country_effect L = map2 (\<lambda>u k. u * real k) u1 ci"
     "platform_effect L = map2 (\<lambda>u k. u * real k) u2 pi"
     "segment_effect L = map2 (\<lambda>u k. u * real k) u3 si"
     "category_effect L =
           map2 (+) (map2 (+) (country_effect L) (platform_effect L)) (segment_effect L)"
     "group_effect L =
           np_where (map (\<lambda>x. x = ''b'') c_abgroup) (treatment_draw L) (other_draw L)"
     "c_value =
           map2 (+)
             (map2 (*) (map2 (*) (base_value L) (map (\<lambda>c. 1 + c) (category_effect L)))
                (map (\<lambda>e. 1 + e) (group_effect L)))
             (value_noise L)"
     "c_pre =
           map2 (+)
             (map2 (+)
                (map2 (*)
                   (map2 (*) (base_value L)
                      (map (\<lambda>c. 1 + c) (map2 (*) (pre_coupling L) (category_effect L))))
                   (map (\<lambda>e. 1 + e) (pre_scale L)))
                (map2 (*) (map (\<lambda>e. 0.5 * sin (e / 2)) (map (\<lambda>x. x * 10) r))
                   (pre_oscillation L)))
             (pre_noise L)"
    by (rule gen_locals_runE)
  note sh = gen_locals_shape [OF assms(1)]
  have i: "i < nat n"
    using assms(2) sh by simp
  have l1: "length c_country = nat n" "length c_platform = nat n" "length c_segment = nat n"
    "length c_abgroup = nat n"
    using ops(2,3,4,5) by (simp_all add: choice_None_props choice_thirds_props)
  have m1: "set c_country \<subseteq> set cs" "set c_platform \<subseteq> set ps" "set c_segment \<subseteq> set ss"
    "set c_abgroup \<subseteq> set abg"
    using ops(2,3,4,5) by (simp_all add: choice_None_props choice_thirds_props)
  have l3: "length c_age = nat n" "length r = nat n"
    using ops(6,7) by (simp_all add: randint_Inr_iff rand_def random_sample_Inr_iff length_draws)
  have l4: "length ci = nat n" "length pi = nat n" "length si = nat n"
    using ops(8,9,10) l1 by (auto dest: series_apply_props)
  have l5: "length u1 = nat n" "length u2 = nat n" "length u3 = nat n"
    using ops(11,12,13) by (simp_all add: uniform_Inr_iff length_draws)
  have row: "df L ! i =
     \<lparr>userid = [1 .. n] ! i, country = c_country ! i, platform = c_platform ! i,
      user_segment = c_segment ! i, abgroup = c_abgroup ! i, age = c_age ! i,
      engagement_score = map (\<lambda>x. x * 10) r ! i, country_idx = ci ! i,
      platform_idx = pi ! i, segment_idx = si ! i, value = c_value ! i,
      pre_test_value = c_pre ! i\<rparr>"
    unfolding L(1) using i sh by (intro nth_DataFrame) simp
  show "userid (df L ! i) = 1 + int i"
    unfolding row using i by (simp add: nth_upto_from_one)
  show "base_value L ! i = base_value_of (age (df L ! i)) (engagement_score (df L ! i))"
    unfolding row L(2) using i l3 by simp
  have ce: "country_effect L ! i = u1 ! i * real (ci ! i)"
    "platform_effect L ! i = u2 ! i * real (pi ! i)"
    "segment_effect L ! i = u3 ! i * real (si ! i)"
    unfolding L using i l4 l5 by simp_all
  show "\<exists>u. country_effect L ! i = u * real (country_idx (df L ! i))"
    unfolding row using ce by auto
  show "\<exists>u. platform_effect L ! i = u * real (platform_idx (df L ! i))"
    unfolding row using ce by auto
  show "\<exists>u. segment_effect L ! i = u * real (segment_idx (df L ! i))"
    unfolding row using ce by auto
  show cat: "category_effect L ! i =
           country_effect L ! i + platform_effect L ! i + segment_effect L ! i"
    unfolding L(6) using i sh by simp
  show grp: "group_effect L ! i =
           (if abgroup (df L ! i) = ''b'' then treatment_draw L ! i else other_draw L ! i)"
    unfolding row L(7) using i sh l1 by (simp add: nth_np_where)
  have "c_value ! i =
           base_value L ! i * (1 + category_effect L ! i) * (1 + group_effect L ! i) +
           value_noise L ! i"
    unfolding L(8) using i sh by simp
  then show "value (df L ! i) =
           base_value L ! i * (1 + category_effect L ! i) * (1 + group_effect L ! i) +
           value_noise L ! i"
    unfolding row by simp
  have "c_pre ! i =
           base_value L ! i * (1 + pre_coupling L ! i * category_effect L ! i) *
             (1 + pre_scale L ! i) +
           0.5 * sin (r ! i * 10 / 2) * pre_oscillation L ! i +
           pre_noise L ! i"
    unfolding L(9) using i sh l3 by simp
  then show "pre_test_value (df L ! i) =
           base_value L ! i * (1 + pre_coupling L ! i * category_effect L ! i) *
             (1 + pre_scale L ! i) +
           0.5 * sin (engagement_score (df L ! i) / 2) * pre_oscillation L ! i +
           pre_noise L ! i"
    unfolding row using i l3 by simp
  show "index_mod cs 3 (country (df L ! i)) = Inr (country_idx (df L ! i))"
    unfolding row using series_apply_props [OF ops(8)] i l1 by simp
  show "index_mod ps 2 (platform (df L ! i)) = Inr (platform_idx (df L ! i))"
    unfolding row using series_apply_props [OF ops(9)] i l1 by simp
  show "index_mod ss 4 (user_segment (df L ! i)) = Inr (segment_idx (df L ! i))"
    unfolding row using series_apply_props [OF ops(10)] i l1 by simp
  show "country (df L ! i) \<in> set cs"
    unfolding row using m1 i l1 by (auto simp: subset_iff)
  show "platform (df L ! i) \<in> set ps"
    unfolding row using m1 i l1 by (auto simp: subset_iff)
  show "user_segment (df L ! i) \<in> set ss"
    unfolding row using m1 i l1 by (auto simp: subset_iff)
  show "abgroup (df L ! i) \<in> set abg"
    unfolding row using m1 i l1 by (auto simp: subset_iff)
qed

subsection \<open>When a run returns\<close>

lemma draws_interval_bound:
  "rng_ok R \<Longrightarrow> list_all (\<lambda>k. k \<le> m) (fst (draws (rk_interval R m) n g))"
  by (rule draws_all) (simp add: rng_ok_def)

lemma draws_double_bound:
  "rng_ok R \<Longrightarrow> list_all (\<lambda>u. 0 \<le> u \<and> u < 1) (fst (draws (rk_double R) n g))"
  by (rule draws_all) (simp add: rng_ok_def)

lemma searchsorted_thirds: "u < 1 \<Longrightarrow> searchsorted_right [1 / 3, 2 / 3, 1] u < 3"
  by (simp add: searchsorted_right_def)

lemma choice_None_indices_ok:
  assumes "rng_ok R" and "n = 0 \<or> a \<noteq> []"
  shows "list_all (\<lambda>k. k < length a) (fst (draws (rk_interval R (length a - 1)) (nat n) g))"
proof (cases "a = []")
  case True
  with assms(2) show ?thesis by simp
next
  case False
  then have "\<And>k. k \<le> length a - 1 \<Longrightarrow> k < length a"
    by (cases a) auto
  with draws_interval_bound [OF assms(1), of "length a - 1" "nat n" g] show ?thesis
    by (auto simp: list_all_iff)
qed

lemma choice_None_succeeds:
  assumes "rng_ok R" and "0 \<le> n" and "n = 0 \<or> a \<noteq> []"
  shows "\<exists>xs g'. choice R a n None g = Inr (xs, g') \<and> set xs \<subseteq> set a"
proof -
  have "\<exists>xs g'. choice R a n None g = Inr (xs, g')"
    using assms choice_None_indices_ok [OF assms(1,3), of g]
    by (simp add: choice_None_Inr_iff)
  then obtain xs g' where "choice R a n None g = Inr (xs, g')"
    by blast
  with choice_None_props [OF this] show ?thesis
    by blast
qed

lemma choice_thirds_succeeds:
  assumes "rng_ok R" and "0 \<le> n" and "length a = 3"
  shows "\<exists>xs g'. choice R a n (Some [1 / 3, 1 / 3, 1 / 3]) g = Inr (xs, g')"
  using assms draws_double_bound [OF assms(1), of "nat n" g]
  by (auto simp: choice_thirds_Inr_iff list_all_iff searchsorted_thirds)

lemma index_mod_succeeds: "x \<in> set v \<Longrightarrow> \<exists>k. index_mod v K x = Inr k"
  using index_mem [of x v] by (auto simp: index_mod_def)

lemma series_apply_succeeds:
  "set xs \<subseteq> set v \<Longrightarrow> \<exists>ys. series_apply (index_mod v K) xs = Inr ys"
proof (induction xs)
  case Nil
  show ?case by simp
next
  case (Cons x xs)
  then obtain ys k where "series_apply (index_mod v K) xs = Inr ys" "index_mod v K x = Inr k"
    using index_mod_succeeds [of x v K] by auto
  then show ?case by simp
qed

lemma float_overflow_large: "6 < float_overflow" "2 < float_overflow"
  by (simp_all add: float_overflow_def)

lemma range_widths:
  "\<bar>snd (treatment_range b) - fst (treatment_range b)\<bar> = 4 * \<bar>b\<bar>"
  "\<bar>snd (other_range b) - fst (other_range b)\<bar> = 4 * \<bar>b\<bar>"
proof -
  have "snd (treatment_range b) - fst (treatment_range b) = 4 * b"
    "snd (other_range b) - fst (other_range b) = 4 * b"
    by (simp_all add: treatment_range_def other_range_def)
  then show "\<bar>snd (treatment_range b) - fst (treatment_range b)\<bar> = 4 * \<bar>b\<bar>"
    "\<bar>snd (other_range b) - fst (other_range b)\<bar> = 4 * \<bar>b\<bar>"
    by (simp_all add: abs_mult)
qed

lemma gen_locals_succeeds:
  assumes ok: "rng_ok R" and sd: "0 \<le> sd" "sd < 2 ^ 32" and n: "0 \<le> n"
    and voc: "n = 0 \<or> (cs \<noteq> [] \<and> ps \<noteq> [] \<and> ss \<noteq> [])"
    and abg: "length abg = 3" and nl: "0 \<le> nl" and width: "4 * \<bar>b\<bar> < float_overflow"
  shows "\<exists>L gf. generate_synthetic_data_locals R n cs ps ss abg b nl sd g = Inr (L, gf)"
proof -
  obtain g1 where s1: "seed R sd g = Inr ((), g1)"
    using sd by (simp add: seed_def)
  obtain c_country g2 where s2: "choice R cs n None g1 = Inr (c_country, g2)"
    and m2: "set c_country \<subseteq> set cs"
    using choice_None_succeeds [OF ok n, of cs g1] voc by auto
  obtain c_platform g3 where s3: "choice R ps n None g2 = Inr (c_platform, g3)"
    and m3: "set c_platform \<subseteq> set ps"
    using choice_None_succeeds [OF ok n, of ps g2] voc by auto
  obtain c_segment g4 where s4: "choice R ss n None g3 = Inr (c_segment, g4)"
    and m4: "set c_segment \<subseteq> set ss"
    using choice_None_succeeds [OF ok n, of ss g3] voc by auto
  obtain c_abgroup g5 where
    s5: "choice R abg n (Some [1 / 3, 1 / 3, 1 / 3]) g4 = Inr (c_abgroup, g5)"
    using choice_thirds_succeeds [OF ok n abg, of g4] by auto
  obtain c_age g6 where s6: "randint R 18 65 n g5 = Inr (c_age, g6)"
    using n by (simp add: randint_Inr_iff)
  obtain r g7 where s7: "rand R n g6 = Inr (r, g7)"
    using n by (simp add: rand_def random_sample_Inr_iff)
  obtain ci where s8: "series_apply (index_mod cs 3) c_country = Inr ci"
    using series_apply_succeeds [OF m2] by auto
  obtain pi where s9: "series_apply (index_mod ps 2) c_platform = Inr pi"
    using series_apply_succeeds [OF m3] by auto
  obtain si where s10: "series_apply (index_mod ss 4) c_segment = Inr si"
    using series_apply_succeeds [OF m4] by auto
  obtain u1 g8 where s11: "uniform R (- 1) 5 n g7 = Inr (u1, g8)"
    using n float_overflow_large by (simp add: uniform_Inr_iff)
  obtain u2 g9 where s12: "uniform R (- 1) 5 n g8 = Inr (u2, g9)"
    using n float_overflow_large by (simp add: uniform_Inr_iff)
  obtain u3 g10 where s13: "uniform R (- 1) 5 n g9 = Inr (u3, g10)"
    using n float_overflow_large by (simp add: uniform_Inr_iff)
  obtain t g11 where
    s14: "uniform R (fst (treatment_range b)) (snd (treatment_range b)) n g10 = Inr (t, g11)"
    using n width by (simp add: uniform_Inr_iff range_widths)
  obtain w g12 where
    s15: "uniform R (fst (other_range b)) (snd (other_range b)) n g11 = Inr (w, g12)"
    using n width by (simp add: uniform_Inr_iff range_widths)
  obtain nz g13 where s16: "normal R 0 nl n g12 = Inr (nz, g13)"
    using n nl by (simp add: normal_Inr_iff)
  obtain n1 g14 where s17: "normal R 1 0.5 n g13 = Inr (n1, g14)"
    using n by (simp add: normal_Inr_iff)
  obtain n2 g15 where s18: "normal R 0 0.05 n g14 = Inr (n2, g15)"
    using n by (simp add: normal_Inr_iff)
  obtain u4 g16 where s19: "uniform R (- 1) 1 n g15 = Inr (u4, g16)"
    using n float_overflow_large by (simp add: uniform_Inr_iff)
  obtain n3 g17 where s20: "normal R (- 1) 1 n g16 = Inr (n3, g17)"
    using n by (simp add: normal_Inr_iff)
  show ?thesis
    unfolding generate_synthetic_data_locals_def Let_def
    by (simp only: rbind_def s1 s2 s3 s4 s5 s6 s7 s8 s9 s10 s11 s12 s13 s14 s15 s16 s17 s18
        s19 s20 rlift_def rreturn_def sum.case prod.case) blast
qed

subsection \<open>Determinism\<close>

lemma seed_state_irrelevant: "seed R s g = seed R s g'"
  by (simp add: seed_def)

lemma rbind_seed: "rbind (seed R s) f g = rbind (seed R s) f g'"
  unfolding rbind_def by (simp only: seed_state_irrelevant [of R s g g'])

lemma gen_locals_state_irrelevant:
  "generate_synthetic_data_locals R n cs ps ss abg b nl sd g =
   generate_synthetic_data_locals R n cs ps ss abg b nl sd g'"
  unfolding generate_synthetic_data_locals_def by (rule rbind_seed)

text \<open>
  C1. Two invocations with the same parameters and the same seed return the same result,
  whatever state the process-wide generator is in when each of them starts: the first
  statement of the function reseeds it. The result is the whole table, so the two tables
  agree in every column of every row; when the parameters are refused, both invocations
  raise the same error.
\<close>

theorem generate_synthetic_data_deterministic:
  "generate_synthetic_data R n cs ps ss abg b nl sd g =
   generate_synthetic_data R n cs ps ss abg b nl sd g'"
  unfolding generate_synthetic_data_def
  by (simp only: gen_locals_state_irrelevant [of R n cs ps ss abg b nl sd g g'])

subsection \<open>The generator used in the examples\<close>

lemma rng_ok_counter: "rng_ok counter_rng"
  by (simp add: rng_ok_def counter_rng_def)

subsection \<open>The whole computation of the post-period outcome\<close>

lemma map_nth_upt: "length c = n \<Longrightarrow> map ((!) c) [0 ..< n] = c"
  by (auto simp: map_nth)

lemma DataFrame_columns:
  assumes "length c2 = length c1" "length c3 = length c1" "length c4 = length c1"
    "length c5 = length c1" "length c6 = length c1" "length c7 = length c1"
    "length c8 = length c1" "length c9 = length c1" "length c10 = length c1"
    "length c11 = length c1" "length c12 = length c1"
  shows "map country (DataFrame c1 c2 c3 c4 c5 c6 c7 c8 c9 c10 c11 c12) = c2"
    and "map platform (DataFrame c1 c2 c3 c4 c5 c6 c7 c8 c9 c10 c11 c12) = c3"
    and "map user_segment (DataFrame c1 c2 c3 c4 c5 c6 c7 c8 c9 c10 c11 c12) = c4"
    and "map abgroup (DataFrame c1 c2 c3 c4 c5 c6 c7 c8 c9 c10 c11 c12) = c5"
    and "map age (DataFrame c1 c2 c3 c4 c5 c6 c7 c8 c9 c10 c11 c12) = c6"
    and "map engagement_score (DataFrame c1 c2 c3 c4 c5 c6 c7 c8 c9 c10 c11 c12) = c7"
    and "map country_idx (DataFrame c1 c2 c3 c4 c5 c6 c7 c8 c9 c10 c11 c12) = c8"
    and "map platform_idx (DataFrame c1 c2 c3 c4 c5 c6 c7 c8 c9 c10 c11 c12) = c9"
    and "map segment_idx (DataFrame c1 c2 c3 c4 c5 c6 c7 c8 c9 c10 c11 c12) = c10"
    and "map value (DataFrame c1 c2 c3 c4 c5 c6 c7 c8 c9 c10 c11 c12) = c11"
  using assms by (simp_all add: DataFrame_def o_def map_nth_upt)

lemma gen_locals_trace:
  assumes "generate_synthetic_data_locals R n cs ps ss abg b nl sd g0 = Inr (L, gf)"
  shows "\<exists>g1 g2 g3 g4 g5 g6 g7 g8 g9 g10 g11 g12 g13 r u1 u2 u3.
           seed R sd g0 = Inr ((), g1) \<and>
           choice R cs n None g1 = Inr (map country (df L), g2) \<and>
           choice R ps n None g2 = Inr (map platform (df L), g3) \<and>
           choice R ss n None g3 = Inr (map user_segment (df L), g4) \<and>
           choice R abg n (Some [1 / 3, 1 / 3, 1 / 3]) g4 = Inr (map abgroup (df L), g5) \<and>
           randint R 18 65 n g5 = Inr (map age (df L), g6) \<and>
           rand R n g6 = Inr (r, g7) \<and>
           map engagement_score (df L) = map (\<lambda>x. x * 10) r \<and>
           series_apply (index_mod cs 3) (map country (df L)) = Inr (map country_idx (df L)) \<and>
           series_apply (index_mod ps 2) (map platform (df L)) = Inr (map platform_idx (df L)) \<and>
           series_apply (index_mod ss 4) (map user_segment (df L)) =
             Inr (map segment_idx (df L)) \<and>
           uniform R (- 1) 5 n g7 = Inr (u1, g8) \<and>
           uniform R (- 1) 5 n g8 = Inr (u2, g9) \<and>
           uniform R (- 1) 5 n g9 = Inr (u3, g10) \<and>
           country_effect L = map2 (\<lambda>u k. u * real k) u1 (map country_idx (df L)) \<and>
           platform_effect L = map2 (\<lambda>u k. u * real k) u2 (map platform_idx (df L)) \<and>
           segment_effect L = map2 (\<lambda>u k. u * real k) u3 (map segment_idx (df L)) \<and>
           category_effect L =
             map2 (+) (map2 (+) (country_effect L) (platform_effect L)) (segment_effect L) \<and>
           uniform R (fst (treatment_range b)) (snd (treatment_range b)) n g10 =
             Inr (treatment_draw L, g11) \<and>
           uniform R (fst (other_range b)) (snd (other_range b)) n g11 =
             Inr (other_draw L, g12) \<and>
           group_effect L =
             np_where (map (\<lambda>x. x = ''b'') (map abgroup (df L))) (treatment_draw L)
               (other_draw L) \<and>
           normal R 0 nl n g12 = Inr (value_noise L, g13) \<and>
           base_value L = map2 base_value_of (map age (df L)) (map engagement_score (df L)) \<and>
           map value (df L) =
             map2 (+)
               (map2 (*) (map2 (*) (base_value L) (map (\<lambda>c. 1 + c) (category_effect L)))
                  (map (\<lambda>e. 1 + e) (group_effect L)))
               (value_noise L)"
proof -
  from assms(1) obtain g1 g2 g3 g4 g5 g6 g7 g8 g9 g10 g11 g12 g13 g14 g15 g16
     c_country c_platform c_segment c_abgroup c_age r ci pi si u1 u2 u3 c_value c_pre
  where ops: "seed R sd g0 = Inr ((), g1)"
     "choice R cs n None g1 = Inr (c_country, g2)"
     "choice R ps n None g2 = Inr (c_platform, g3)"
     "choice R ss n None g3 = Inr (c_segment, g4)"
     "choice R abg n (Some [1 / 3, 1 / 3, 1 / 3]) g4 = Inr (c_abgroup, g5)"
     "randint R 18 65 n g5 = Inr (c_age, g6)"
     "rand R n g6 = Inr (r, g7)"
     "series_apply (index_mod cs 3) c_country = Inr ci"
     "series_apply (index_mod ps 2) c_platform = Inr pi"
     "series_apply (index_mod ss 4) c_segment = Inr si"
     "uniform R (- 1) 5 n g7 = Inr (u1, g8)"
     "uniform R (- 1) 5 n g8 = Inr (u2, g9)"
     "uniform R (- 1) 5 n g9 = Inr (u3, g10)"
     "uniform R (fst (treatment_range b)) (snd (treatment_range b)) n g10 =
           Inr (treatment_draw L, g11)"
     "uniform R (fst (other_range b)) (snd (other_range b)) n g11 = Inr (other_draw L, g12)"
     "normal R 0 nl n g12 = Inr (value_noise L, g13)"
     "normal R 1 0.5 n g13 = Inr (pre_coupling L, g14)"
     "normal R 0 0.05 n g14 = Inr (pre_scale L, g15)"
     "uniform R (- 1) 1 n g15 = Inr (pre_oscillation L, g16)"
     "normal R (- 1) 1 n g16 = Inr (pre_noise L, gf)"
    and L: "df L = DataFrame [1 .. n] c_country c_platform c_segment c_abgroup c_age
                  (map (\<lambda>x. x * 10) r) ci pi si c_value c_pre"
     "base_value L = map2 base_value_of c_age (map (\<lambda>x. x * 10) r)"
     "country_effect L = map2 (\<lambda>u k. u * real k) u1 ci"
     "platform_effect L = map2 (\<lambda>u k. u * real k) u2 pi"
     "segment_effect L = map2 (\<lambda>u k. u * real k) u3 si"
     "category_effect L =
           map2 (+) (map2 (+) (country_effect L) (platform_effect L)) (segment_effect L)"
     "group_effect L =
           np_where (map (\<lambda>x. x = ''b'') c_abgroup) (treatment_draw L) (other_draw L)"
     "c_value =
           map2 (+)
             (map2 (*) (map2 (*) (base_value L) (map (\<lambda>c. 1 + c) (category_effect L)))
                (map (\<lambda>e. 1 + e) (group_effect L)))
             (value_noise L)"
     "c_pre =
           map2 (+)
             (map2 (+)
                (map2 (*)
                   (map2 (*) (base_value L)
                      (map (\<lambda>c. 1 + c) (map2 (*) (pre_coupling L) (category_effect L))))
                   (map (\<lambda>e. 1 + e) (pre_scale L)))
                (map2 (*) (map (\<lambda>e. 0.5 * sin (e / 2)) (map (\<lambda>x. x * 10) r))
                   (pre_oscillation L)))
             (pre_noise L)"
    by (rule gen_locals_runE)
  note sh = gen_locals_shape [OF assms]
  have l1: "length c_country = nat n" "length c_platform = nat n" "length c_segment = nat n"
    "length c_abgroup = nat n"
    using ops(2,3,4,5) by (simp_all add: choice_None_props choice_thirds_props)
  have l3: "length c_age = nat n" "length r = nat n"
    using ops(6,7) by (simp_all add: randint_Inr_iff rand_def random_sample_Inr_iff length_draws)
  have l4: "length ci = nat n" "length pi = nat n" "length si = nat n"
    using ops(8,9,10) l1 by (auto dest: series_apply_props)
  have l5: "length c_value = nat n"
    unfolding L(8) using sh by simp
  have l6: "length c_pre = nat n"
    unfolding L(9) using sh l3 by simp
  have l0: "length [1 .. n] = nat n"
    using sh by simp
  note cols = DataFrame_columns [of c_country "[1 .. n]" c_platform c_segment c_abgroup c_age
      "map (\<lambda>x. x * 10) r" ci pi si c_value c_pre, folded L(1)]
  have c: "map country (df L) = c_country" "map platform (df L) = c_platform"
    "map user_segment (df L) = c_segment" "map abgroup (df L) = c_abgroup"
    "map age (df L) = c_age" "map engagement_score (df L) = map (\<lambda>x. x * 10) r"
    "map country_idx (df L) = ci" "map platform_idx (df L) = pi"
    "map segment_idx (df L) = si" "map value (df L) = c_value"
    using l0 l1 l3 l4 l5 l6 by (simp_all add: cols)
  show ?thesis
    unfolding c using ops L(2-8) by blast
qed

subsection \<open>Two runs, evaluated\<close>

lemmas run_eval = counter_rng_def upt_rec searchsorted_right_def index_mod_def DataFrame_def
  np_where_def treatment_range_def other_range_def base_value_of_def float_overflow_def
  numeral_2_eq_2 [symmetric] numeral_3_eq_3 [symmetric] mod_Suc

text \<open>Two users, vocabularies of two, three and five entries.\<close>

lemma example_run:
  "generate_synthetic_data_locals counter_rng 2 [''US'', ''UK''] [''iOS'', ''Android'', ''Web'']
     [''Segment_1'', ''Segment_2'', ''Segment_3'', ''Segment_4'', ''Segment_5'']
     [''a1'', ''a2'', ''b''] 0.05 1 40 (0::nat) =
     Inr (\<lparr>df =
            [\<lparr>userid = 1, country = ''US'', platform = ''iOS'', user_segment = ''Segment_5'',
              abgroup = ''a2'', age = 19, engagement_score = 5, country_idx = 0,
              platform_idx = 0, segment_idx = 0, value = 1621 / 100,
              pre_test_value = 3011 / 200 - sin (5 / 2) / 2\<rparr>,
             \<lparr>userid = 2, country = ''UK'', platform = ''Android'',
              user_segment = ''Segment_1'', abgroup = ''b'', age = 20,
              engagement_score = 15 / 2, country_idx = 1, platform_idx = 1, segment_idx = 0,
              value = 425 / 4, pre_test_value = 273 / 2 - sin (15 / 4) / 4\<rparr>],
          base_value = [169 / 10, 39 / 2], country_effect = [0, 1 / 2],
          platform_effect = [0, 7 / 2], segment_effect = [0, 0], category_effect = [0, 4],
          treatment_draw = [1 / 20, 1 / 10], other_draw = [- (1 / 10), - (1 / 20)],
          group_effect = [- (1 / 10), 1 / 10], value_noise = [1, - 1],
          pre_coupling = [1, 3 / 2], pre_scale = [- (1 / 20), 0],
          pre_oscillation = [- 1, - (1 / 2)], pre_noise = [- 1, 0]\<rparr>,
          72)"
  unfolding generate_synthetic_data_locals_def Let_def
  apply (simp add: op_iffs draws_counter_double draws_counter_gauss draws_counter_interval
      float_overflow_def)
  apply (simp add: run_eval)
  done

text \<open>The scenario of the specification: five users, one-element vocabularies, seed 40.\<close>

lemma scenario_run:
  "generate_synthetic_data_locals counter_rng 5 [''US''] [''iOS''] [''Segment_1'']
     [''a1'', ''a2'', ''b''] 0.05 1 40 (0::nat) =
     Inr (\<lparr>df =
            [\<lparr>userid = 1, country = ''US'', platform = ''iOS'', user_segment = ''Segment_1'',
              abgroup = ''b'', age = 31, engagement_score = 5 / 2, country_idx = 0,
              platform_idx = 0, segment_idx = 0, value = 83 / 5, pre_test_value = 691 / 50\<rparr>,
             \<lparr>userid = 2, country = ''US'', platform = ''iOS'', user_segment = ''Segment_1'',
              abgroup = ''a1'', age = 32, engagement_score = 5, country_idx = 0,
              platform_idx = 0, segment_idx = 0, value = 1811 / 100,
              pre_test_value = 91 / 5 + sin (5 / 2) / 4\<rparr>,
             \<lparr>userid = 3, country = ''US'', platform = ''iOS'', user_segment = ''Segment_1'',
              abgroup = ''a1'', age = 33, engagement_score = 15 / 2, country_idx = 0,
              platform_idx = 0, segment_idx = 0, value = 468 / 25,
              pre_test_value = 496 / 25 - sin (15 / 4) / 2\<rparr>,
             \<lparr>userid = 4, country = ''US'', platform = ''iOS'', user_segment = ''Segment_1'',
              abgroup = ''a2'', age = 34, engagement_score = 0, country_idx = 0,
              platform_idx = 0, segment_idx = 0, value = 1373 / 100,
              pre_test_value = 1173 / 100\<rparr>,
             \<lparr>userid = 5, country = ''US'', platform = ''iOS'', user_segment = ''Segment_1'',
              abgroup = ''b'', age = 35, engagement_score = 5 / 2, country_idx = 0,
              platform_idx = 0, segment_idx = 0, value = 15, pre_test_value = 16\<rparr>],
          base_value = [78 / 5, 91 / 5, 104 / 5, 67 / 5, 16],
          country_effect = [0, 0, 0, 0, 0], platform_effect = [0, 0, 0, 0, 0],
          segment_effect = [0, 0, 0, 0, 0], category_effect = [0, 0, 0, 0, 0],
          treatment_draw = [0, 1 / 20, 1 / 10, - (1 / 20), 0],
          other_draw = [0, 1 / 20, - (1 / 10), - (1 / 20), 0],
          group_effect = [0, 1 / 20, - (1 / 10), - (1 / 20), 0],
          value_noise = [1, - 1, 0, 1, - 1], pre_coupling = [1, 3 / 2, 1 / 2, 1, 3 / 2],
          pre_scale = [- (1 / 20), 0, 1 / 20, - (1 / 20), 0],
          pre_oscillation = [0, 1 / 2, - 1, - (1 / 2), 0],
          pre_noise = [- 1, 0, - 2, - 1, 0]\<rparr>,
          120)"
  unfolding generate_synthetic_data_locals_def Let_def
  apply (simp add: op_iffs draws_counter_double draws_counter_gauss draws_counter_interval
      float_overflow_def)
  apply (simp add: run_eval)
  done

subsection \<open>The post-period outcome\<close>

lemma gen_locals_draws:
  assumes "generate_synthetic_data_locals R n cs ps ss abg b nl sd g0 = Inr (L, gf)"
  shows "(\<exists>g1 g2. normal R 0 nl n g1 = Inr (value_noise L, g2)) \<and>
         (\<exists>g1 g2. uniform R (fst (treatment_range b)) (snd (treatment_range b)) n g1 =
                     Inr (treatment_draw L, g2)) \<and>
         (\<exists>g1 g2. uniform R (fst (other_range b)) (snd (other_range b)) n g1 =
                     Inr (other_draw L, g2))"
  using assms by (rule gen_locals_runE) blast

lemma base_value_of_mono:
  "(\<forall>a a' e e'. a \<le> a' \<and> e \<le> e' \<longrightarrow> base_value_of a e \<le> base_value_of a' e') \<and>
   (\<forall>a a' e. a < a' \<longrightarrow> base_value_of a e < base_value_of a' e) \<and>
   (\<forall>a e e'. e < e' \<longrightarrow> base_value_of a e < base_value_of a e')"
  by (simp add: base_value_of_def)

text \<open>
  C2. In every row of a returned table, \<open>value\<close> is the base value times one plus the
  category effect times one plus the group effect, plus that row's entry of the array
  returned by \<^verbatim>\<open>np.random.normal(0, noise_level, num_users)\<close>. The base value is
  \<open>base_value_of\<close> of the row's age and engagement score, which grows with each of them
  (strictly, when the other is held fixed). The category effect is the sum of the three
  contributions and the group effect is the row's entry of the treatment draw or of the
  other draw, by the row's \<open>abgroup\<close>. The last conjunct says where every one of these
  arrays comes from: the calls of lines 31 to 68, each starting from the generator state
  the one before it left, return the columns of the table and the arrays the effects are
  built from, so that the \<open>value\<close> column is determined by the parameters, the seed and
  the generator.
\<close>

theorem value_formula:
  assumes "generate_synthetic_data_locals R n cs ps ss abg b nl sd g0 = Inr (L, gf)"
    and "i < length (df L)"
  shows "value (df L ! i) =
           base_value L ! i * (1 + category_effect L ! i) * (1 + group_effect L ! i) +
           value_noise L ! i \<and>
         base_value L ! i = base_value_of (age (df L ! i)) (engagement_score (df L ! i)) \<and>
         (\<exists>g1 g2. normal R 0 nl n g1 = Inr (value_noise L, g2)) \<and>
         (\<forall>a a' e e'. a \<le> a' \<and> e \<le> e' \<longrightarrow> base_value_of a e \<le> base_value_of a' e') \<and>
         (\<forall>a a' e. a < a' \<longrightarrow> base_value_of a e < base_value_of a' e) \<and>
         (\<forall>a e e'. e < e' \<longrightarrow> base_value_of a e < base_value_of a e') \<and>
         category_effect L ! i =
           country_effect L ! i + platform_effect L ! i + segment_effect L ! i \<and>
         group_effect L ! i =
           (if abgroup (df L ! i) = ''b'' then treatment_draw L ! i else other_draw L ! i) \<and>
         (\<exists>g1 g2 g3 g4 g5 g6 g7 g8 g9 g10 g11 g12 g13 r u1 u2 u3.
            seed R sd g0 = Inr ((), g1) \<and>
            choice R cs n None g1 = Inr (map country (df L), g2) \<and>
            choice R ps n None g2 = Inr (map platform (df L), g3) \<and>
            choice R ss n None g3 = Inr (map user_segment (df L), g4) \<and>
            choice R abg n (Some [1 / 3, 1 / 3, 1 / 3]) g4 = Inr (map abgroup (df L), g5) \<and>
            randint R 18 65 n g5 = Inr (map age (df L), g6) \<and>
            rand R n g6 = Inr (r, g7) \<and>
            map engagement_score (df L) = map (\<lambda>x. x * 10) r \<and>
            series_apply (index_mod cs 3) (map country (df L)) = Inr (map country_idx (df L)) \<and>
            series_apply (index_mod ps 2) (map platform (df L)) = Inr (map platform_idx (df L)) \<and>
            series_apply (index_mod ss 4) (map user_segment (df L)) =
              Inr (map segment_idx (df L)) \<and>
            uniform R (- 1) 5 n g7 = Inr (u1, g8) \<and>
            uniform R (- 1) 5 n g8 = Inr (u2, g9) \<and>
            uniform R (- 1) 5 n g9 = Inr (u3, g10) \<and>
            country_effect L = map2 (\<lambda>u k. u * real k) u1 (map country_idx (df L)) \<and>
            platform_effect L = map2 (\<lambda>u k. u * real k) u2 (map platform_idx (df L)) \<and>
            segment_effect L = map2 (\<lambda>u k. u * real k) u3 (map segment_idx (df L)) \<and>
            category_effect L =
              map2 (+) (map2 (+) (country_effect L) (platform_effect L)) (segment_effect L) \<and>
            uniform R (fst (treatment_range b)) (snd (treatment_range b)) n g10 =
              Inr (treatment_draw L, g11) \<and>
            uniform R (fst (other_range b)) (snd (other_range b)) n g11 =
              Inr (other_draw L, g12) \<and>
            group_effect L =
              np_where (map (\<lambda>x. x = ''b'') (map abgroup (df L))) (treatment_draw L)
                (other_draw L) \<and>
            normal R 0 nl n g12 = Inr (value_noise L, g13) \<and>
            base_value L = map2 base_value_of (map age (df L)) (map engagement_score (df L)) \<and>
            map value (df L) =
              map2 (+)
                (map2 (*) (map2 (*) (base_value L) (map (\<lambda>c. 1 + c) (category_effect L)))
                   (map (\<lambda>e. 1 + e) (group_effect L)))
                (value_noise L))"
proof -
  note row = gen_locals_row [OF assms]
  have noise: "\<exists>g1 g2. normal R 0 nl n g1 = Inr (value_noise L, g2)"
    using gen_locals_draws [OF assms(1)] by blast
  show ?thesis
    by (intro conjI row(2) row(4) row(8) row(9) noise gen_locals_trace [OF assms(1)]
        base_value_of_mono [THEN conjunct1] base_value_of_mono [THEN conjunct2, THEN conjunct1]
        base_value_of_mono [THEN conjunct2, THEN conjunct2])
qed

theorem value_formula_witness:
  "\<exists>L gf. generate_synthetic_data_locals counter_rng 2 [''US'', ''UK'']
       [''iOS'', ''Android'', ''Web'']
       [''Segment_1'', ''Segment_2'', ''Segment_3'', ''Segment_4'', ''Segment_5'']
       [''a1'', ''a2'', ''b''] 0.05 1 40 (0::nat) = Inr (L, gf) \<and>
     1 < length (df L) \<and>
     age (df L ! 1) = 20 \<and> engagement_score (df L ! 1) = 15 / 2 \<and> abgroup (df L ! 1) = ''b'' \<and>
     base_value L ! 1 = 39 / 2 \<and> category_effect L ! 1 = 4 \<and> group_effect L ! 1 = 1 / 10 \<and>
     value_noise L ! 1 = - 1 \<and> value (df L ! 1) = 425 / 4 \<and>
     value (df L ! 1) =
       base_value L ! 1 * (1 + category_effect L ! 1) * (1 + group_effect L ! 1) +
       value_noise L ! 1 \<and>
     base_value L ! 1 = base_value_of (age (df L ! 1)) (engagement_score (df L ! 1)) \<and>
     category_effect L ! 1 =
       country_effect L ! 1 + platform_effect L ! 1 + segment_effect L ! 1 \<and>
     group_effect L ! 1 =
       (if abgroup (df L ! 1) = ''b'' then treatment_draw L ! 1 else other_draw L ! 1)"
proof -
  let ?L = "\<lparr>df =
            [\<lparr>userid = 1, country = ''US'', platform = ''iOS'', user_segment = ''Segment_5'',
              abgroup = ''a2'', age = 19, engagement_score = 5, country_idx = 0,
              platform_idx = 0, segment_idx = 0, value = 1621 / 100,
              pre_test_value = 3011 / 200 - sin (5 / 2) / 2\<rparr>,
             \<lparr>userid = 2, country = ''UK'', platform = ''Android'',
              user_segment = ''Segment_1'', abgroup = ''b'', age = 20,
              engagement_score = 15 / 2, country_idx = 1, platform_idx = 1, segment_idx = 0,
              value = 425 / 4, pre_test_value = 273 / 2 - sin (15 / 4) / 4\<rparr>],
          base_value = [169 / 10, 39 / 2], country_effect = [0, 1 / 2],
          platform_effect = [0, 7 / 2], segment_effect = [0, 0], category_effect = [0, 4],
          treatment_draw = [1 / 20, 1 / 10], other_draw = [- (1 / 10), - (1 / 20)],
          group_effect = [- (1 / 10), 1 / 10], value_noise = [1, - 1],
          pre_coupling = [1, 3 / 2], pre_scale = [- (1 / 20), 0],
          pre_oscillation = [- 1, - (1 / 2)], pre_noise = [- 1, 0]\<rparr>"
  note run = example_run
  have len: "1 < length (df ?L)"
    by simp
  have vals: "age (df ?L ! 1) = 20" "engagement_score (df ?L ! 1) = 15 / 2"
    "abgroup (df ?L ! 1) = ''b''" "base_value ?L ! 1 = 39 / 2" "category_effect ?L ! 1 = 4"
    "group_effect ?L ! 1 = 1 / 10" "value_noise ?L ! 1 = - 1" "value (df ?L ! 1) = 425 / 4"
    by simp_all
  note vf = value_formula [OF run len]
  show ?thesis
    by (rule exI [where x = "?L"], rule exI [where x = 72])
      (intro conjI run len vals vf [THEN conjunct1]
        vf [THEN conjunct2, THEN conjunct1]
        vf [THEN conjunct2, THEN conjunct2, THEN conjunct2, THEN conjunct2, THEN conjunct2,
          THEN conjunct2, THEN conjunct1]
        vf [THEN conjunct2, THEN conjunct2, THEN conjunct2, THEN conjunct2, THEN conjunct2,
          THEN conjunct2, THEN conjunct2, THEN conjunct1])
qed

subsection \<open>Buckets, category effect and group effect\<close>

lemma index_mod_bucket:
  assumes "index_mod v K x = Inr j"
  shows "\<exists>k. index v x = Inr k \<and> j = k mod K"
  using assms by (auto simp: index_mod_def split: sum.splits)

text \<open>
  C5. In every row of a returned table each bucket is the position of the row's value in
  its vocabulary (the one \<^verbatim>\<open>list.index\<close> finds, where the vocabulary holds that
  value) modulo 3 for the country, 2 for the platform and 4 for the segment, hence below
  that modulus. Each attribute contributes its
  random multiplier times its bucket, so a bucket of 0 contributes exactly 0 whatever the
  multiplier is, and the category effect is the sum of the three contributions.
\<close>

theorem bucket_invariant:
  assumes "generate_synthetic_data_locals R n cs ps ss abg b nl sd g0 = Inr (L, gf)"
    and "i < length (df L)"
  shows "(\<exists>k. index cs (country (df L ! i)) = Inr k \<and> cs ! k = country (df L ! i) \<and>
              country_idx (df L ! i) = k mod 3) \<and>
         (\<exists>k. index ps (platform (df L ! i)) = Inr k \<and> ps ! k = platform (df L ! i) \<and>
              platform_idx (df L ! i) = k mod 2) \<and>
         (\<exists>k. index ss (user_segment (df L ! i)) = Inr k \<and> ss ! k = user_segment (df L ! i) \<and>
              segment_idx (df L ! i) = k mod 4) \<and>
         country_idx (df L ! i) < 3 \<and> platform_idx (df L ! i) < 2 \<and> segment_idx (df L ! i) < 4 \<and>
         (\<exists>u. country_effect L ! i = u * real (country_idx (df L ! i))) \<and>
         (\<exists>u. platform_effect L ! i = u * real (platform_idx (df L ! i))) \<and>
         (\<exists>u. segment_effect L ! i = u * real (segment_idx (df L ! i))) \<and>
         (country_idx (df L ! i) = 0 \<longrightarrow> country_effect L ! i = 0) \<and>
         (platform_idx (df L ! i) = 0 \<longrightarrow> platform_effect L ! i = 0) \<and>
         (segment_idx (df L ! i) = 0 \<longrightarrow> segment_effect L ! i = 0) \<and>
         category_effect L ! i =
           country_effect L ! i + platform_effect L ! i + segment_effect L ! i"
proof -
  note row = gen_locals_row [OF assms]
  obtain kc where kc: "index cs (country (df L ! i)) = Inr kc" "country_idx (df L ! i) = kc mod 3"
    using index_mod_bucket [OF row(10)] by blast
  obtain kp where kp: "index ps (platform (df L ! i)) = Inr kp" "platform_idx (df L ! i) = kp mod 2"
    using index_mod_bucket [OF row(11)] by blast
  obtain ks where ks: "index ss (user_segment (df L ! i)) = Inr ks"
    "segment_idx (df L ! i) = ks mod 4"
    using index_mod_bucket [OF row(12)] by blast
  have bounds: "country_idx (df L ! i) < 3" "platform_idx (df L ! i) < 2"
    "segment_idx (df L ! i) < 4"
    using kc(2) kp(2) ks(2) by simp_all
  have zero: "country_idx (df L ! i) = 0 \<longrightarrow> country_effect L ! i = 0"
    "platform_idx (df L ! i) = 0 \<longrightarrow> platform_effect L ! i = 0"
    "segment_idx (df L ! i) = 0 \<longrightarrow> segment_effect L ! i = 0"
    using row(5,6,7) by auto
  have at: "cs ! kc = country (df L ! i)" "ps ! kp = platform (df L ! i)"
    "ss ! ks = user_segment (df L ! i)"
    using index_Inr_nth [OF kc(1)] index_Inr_nth [OF kp(1)] index_Inr_nth [OF ks(1)]
    by simp_all
  show ?thesis
    using kc kp ks at bounds zero row(5,6,7,8) by blast
qed

theorem bucket_invariant_witness:
  "\<exists>L gf. generate_synthetic_data_locals counter_rng 2 [''US'', ''UK'', ''DE'', ''FR'']
       [''iOS'', ''Android'', ''Web''] [''Segment_1'', ''Segment_2'', ''Segment_3'', ''Segment_4'',
       ''Segment_5''] [''a1'', ''a2'', ''b''] 0.05 1 40 (0::nat) = Inr (L, gf) \<and>
     0 < length (df L) \<and> country_idx (df L ! 0) < 3 \<and> platform_idx (df L ! 0) < 2 \<and>
     segment_idx (df L ! 0) < 4 \<and>
     category_effect L ! 0 = country_effect L ! 0 + platform_effect L ! 0 + segment_effect L ! 0"
proof -
  obtain L gf where run:
    "generate_synthetic_data_locals counter_rng 2 [''US'', ''UK'', ''DE'', ''FR'']
       [''iOS'', ''Android'', ''Web''] [''Segment_1'', ''Segment_2'', ''Segment_3'', ''Segment_4'',
       ''Segment_5''] [''a1'', ''a2'', ''b''] 0.05 1 40 (0::nat) = Inr (L, gf)"
    using gen_locals_succeeds [OF rng_ok_counter, where sd = 40 and n = 2
        and cs = "[''US'', ''UK'', ''DE'', ''FR'']" and ps = "[''iOS'', ''Android'', ''Web'']"
        and ss = "[''Segment_1'', ''Segment_2'', ''Segment_3'', ''Segment_4'', ''Segment_5'']"
        and abg = "[''a1'', ''a2'', ''b'']" and nl = 1 and b = "0.05" and g = 0]
    by (auto simp: float_overflow_def)
  have len: "0 < length (df L)"
    using gen_locals_shape [OF run] by simp
  from bucket_invariant [OF run len] run len show ?thesis
    by blast
qed

text \<open>
  C9. When the three vocabularies have one element each, as in the scenario with
  \<open>num_users = 5\<close>, \<open>['US']\<close>, \<open>['iOS']\<close>, \<open>['Segment_1']\<close>,
  \<open>['a1', 'a2', 'b']\<close> and seed 40, every row holds those three elements, every bucket
  of every row is 0, the three contributions and the category effect of every row are 0,
  and \<open>value\<close> is the base value times one plus the group effect, plus the noise. Here
  the base value is \<open>base_value_of\<close> of the row's age and engagement score, the group
  effect is the row's entry of the treatment draw or of the other draw, by the row's
  \<open>abgroup\<close>, and the last conjunct says where the columns, the draws and the noise come
  from: the calls of lines 31 to 68, each starting from the generator state the one
  before it left.
\<close>

theorem single_vocabulary:
  assumes "generate_synthetic_data_locals R n [c] [p] [s] abg b nl sd g0 = Inr (L, gf)"
    and "i < length (df L)"
  shows "country_idx (df L ! i) = 0 \<and> platform_idx (df L ! i) = 0 \<and>
         segment_idx (df L ! i) = 0 \<and> category_effect L ! i = 0 \<and>
         value (df L ! i) = base_value L ! i * (1 + group_effect L ! i) + value_noise L ! i \<and>
         country (df L ! i) = c \<and> platform (df L ! i) = p \<and> user_segment (df L ! i) = s \<and>
         country_effect L ! i = 0 \<and> platform_effect L ! i = 0 \<and> segment_effect L ! i = 0 \<and>
         base_value L ! i = base_value_of (age (df L ! i)) (engagement_score (df L ! i)) \<and>
         group_effect L ! i =
           (if abgroup (df L ! i) = ''b'' then treatment_draw L ! i else other_draw L ! i) \<and>
         value (df L ! i) =
           base_value_of (age (df L ! i)) (engagement_score (df L ! i)) *
             (1 + (if abgroup (df L ! i) = ''b'' then treatment_draw L ! i
                   else other_draw L ! i)) +
           value_noise L ! i \<and>
         (\<exists>g1 g2 g3 g4 g5 g6 g7 g8 g9 g10 g11 g12 g13 r u1 u2 u3.
            seed R sd g0 = Inr ((), g1) \<and>
            choice R [c] n None g1 = Inr (map country (df L), g2) \<and>
            choice R [p] n None g2 = Inr (map platform (df L), g3) \<and>
            choice R [s] n None g3 = Inr (map user_segment (df L), g4) \<and>
            choice R abg n (Some [1 / 3, 1 / 3, 1 / 3]) g4 = Inr (map abgroup (df L), g5) \<and>
            randint R 18 65 n g5 = Inr (map age (df L), g6) \<and>
            rand R n g6 = Inr (r, g7) \<and>
            map engagement_score (df L) = map (\<lambda>x. x * 10) r \<and>
            series_apply (index_mod [c] 3) (map country (df L)) = Inr (map country_idx (df L)) \<and>
            series_apply (index_mod [p] 2) (map platform (df L)) = Inr (map platform_idx (df L)) \<and>
            series_apply (index_mod [s] 4) (map user_segment (df L)) =
              Inr (map segment_idx (df L)) \<and>
            uniform R (- 1) 5 n g7 = Inr (u1, g8) \<and>
            uniform R (- 1) 5 n g8 = Inr (u2, g9) \<and>
            uniform R (- 1) 5 n g9 = Inr (u3, g10) \<and>
            country_effect L = map2 (\<lambda>u k. u * real k) u1 (map country_idx (df L)) \<and>
            platform_effect L = map2 (\<lambda>u k. u * real k) u2 (map platform_idx (df L)) \<and>
            segment_effect L = map2 (\<lambda>u k. u * real k) u3 (map segment_idx (df L)) \<and>
            category_effect L =
              map2 (+) (map2 (+) (country_effect L) (platform_effect L)) (segment_effect L) \<and>
            uniform R (fst (treatment_range b)) (snd (treatment_range b)) n g10 =
              Inr (treatment_draw L, g11) \<and>
            uniform R (fst (other_range b)) (snd (other_range b)) n g11 =
              Inr (other_draw L, g12) \<and>
            group_effect L =
              np_where (map (\<lambda>x. x = ''b'') (map abgroup (df L))) (treatment_draw L)
                (other_draw L) \<and>
            normal R 0 nl n g12 = Inr (value_noise L, g13) \<and>
            base_value L = map2 base_value_of (map age (df L)) (map engagement_score (df L)) \<and>
            map value (df L) =
              map2 (+)
                (map2 (*) (map2 (*) (base_value L) (map (\<lambda>c. 1 + c) (category_effect L)))
                   (map (\<lambda>e. 1 + e) (group_effect L)))
                (value_noise L))"
proof -
  note row = gen_locals_row [OF assms]
  have here: "country (df L ! i) = c" "platform (df L ! i) = p" "user_segment (df L ! i) = s"
    using row(13,14,15) by simp_all
  then have idx: "country_idx (df L ! i) = 0" "platform_idx (df L ! i) = 0"
    "segment_idx (df L ! i) = 0"
    using row(10,11,12) by (simp_all add: index_mod_def)
  have parts: "country_effect L ! i = 0" "platform_effect L ! i = 0" "segment_effect L ! i = 0"
    using row(5,6,7) idx by auto
  have cat: "category_effect L ! i = 0"
    using row(8) parts by simp
  have v: "value (df L ! i) = base_value L ! i * (1 + group_effect L ! i) + value_noise L ! i"
    using row(2) cat by simp
  have v': "value (df L ! i) =
           base_value_of (age (df L ! i)) (engagement_score (df L ! i)) *
             (1 + (if abgroup (df L ! i) = ''b'' then treatment_draw L ! i
                   else other_draw L ! i)) +
           value_noise L ! i"
    using v row(4) row(9) by simp
  show ?thesis
    by (intro conjI idx cat v here parts row(4) row(9) v' gen_locals_trace [OF assms(1)])
qed

theorem single_vocabulary_witness:
  "\<exists>L gf. generate_synthetic_data_locals counter_rng 5 [''US''] [''iOS''] [''Segment_1'']
       [''a1'', ''a2'', ''b''] 0.05 1 40 (0::nat) = Inr (L, gf) \<and>
     3 < length (df L) \<and>
     age (df L ! 3) = 34 \<and> engagement_score (df L ! 3) = 0 \<and> abgroup (df L ! 3) = ''a2'' \<and>
     base_value L ! 3 = 67 / 5 \<and> group_effect L ! 3 = - (1 / 20) \<and> value_noise L ! 3 = 1 \<and>
     value (df L ! 3) = 1373 / 100 \<and>
     country_idx (df L ! 3) = 0 \<and> platform_idx (df L ! 3) = 0 \<and>
     segment_idx (df L ! 3) = 0 \<and> category_effect L ! 3 = 0 \<and>
     value (df L ! 3) = base_value L ! 3 * (1 + group_effect L ! 3) + value_noise L ! 3 \<and>
     country (df L ! 3) = ''US'' \<and> platform (df L ! 3) = ''iOS'' \<and>
     user_segment (df L ! 3) = ''Segment_1'' \<and>
     base_value L ! 3 = base_value_of (age (df L ! 3)) (engagement_score (df L ! 3)) \<and>
     group_effect L ! 3 =
       (if abgroup (df L ! 3) = ''b'' then treatment_draw L ! 3 else other_draw L ! 3)"
proof -
  let ?L = "\<lparr>df =
            [\<lparr>userid = 1, country = ''US'', platform = ''iOS'', user_segment = ''Segment_1'',
              abgroup = ''b'', age = 31, engagement_score = 5 / 2, country_idx = 0,
              platform_idx = 0, segment_idx = 0, value = 83 / 5, pre_test_value = 691 / 50\<rparr>,
             \<lparr>userid = 2, country = ''US'', platform = ''iOS'', user_segment = ''Segment_1'',
              abgroup = ''a1'', age = 32, engagement_score = 5, country_idx = 0,
              platform_idx = 0, segment_idx = 0, value = 1811 / 100,
              pre_test_value = 91 / 5 + sin (5 / 2) / 4\<rparr>,
             \<lparr>userid = 3, country = ''US'', platform = ''iOS'', user_segment = ''Segment_1'',
              abgroup = ''a1'', age = 33, engagement_score = 15 / 2, country_idx = 0,
              platform_idx = 0, segment_idx = 0, value = 468 / 25,
              pre_test_value = 496 / 25 - sin (15 / 4) / 2\<rparr>,
             \<lparr>userid = 4, country = ''US'', platform = ''iOS'', user_segment = ''Segment_1'',
              abgroup = ''a2'', age = 34, engagement_score = 0, country_idx = 0,
              platform_idx = 0, segment_idx = 0, value = 1373 / 100,
              pre_test_value = 1173 / 100\<rparr>,
             \<lparr>userid = 5, country = ''US'', platform = ''iOS'', user_segment = ''Segment_1'',
              abgroup = ''b'', age = 35, engagement_score = 5 / 2, country_idx = 0,
              platform_idx = 0, segment_idx = 0, value = 15, pre_test_value = 16\<rparr>],
          base_value = [78 / 5, 91 / 5, 104 / 5, 67 / 5, 16],
          country_effect = [0, 0, 0, 0, 0], platform_effect = [0, 0, 0, 0, 0],
          segment_effect = [0, 0, 0, 0, 0], category_effect = [0, 0, 0, 0, 0],
          treatment_draw = [0, 1 / 20, 1 / 10, - (1 / 20), 0],
          other_draw = [0, 1 / 20, - (1 / 10), - (1 / 20), 0],
          group_effect = [0, 1 / 20, - (1 / 10), - (1 / 20), 0],
          value_noise = [1, - 1, 0, 1, - 1], pre_coupling = [1, 3 / 2, 1 / 2, 1, 3 / 2],
          pre_scale = [- (1 / 20), 0, 1 / 20, - (1 / 20), 0],
          pre_oscillation = [0, 1 / 2, - 1, - (1 / 2), 0],
          pre_noise = [- 1, 0, - 2, - 1, 0]\<rparr>"
  note run = scenario_run
  have len: "3 < length (df ?L)"
    by simp
  have vals: "age (df ?L ! 3) = 34" "engagement_score (df ?L ! 3) = 0"
    "abgroup (df ?L ! 3) = ''a2''" "base_value ?L ! 3 = 67 / 5"
    "group_effect ?L ! 3 = - (1 / 20)" "value_noise ?L ! 3 = 1"
    "value (df ?L ! 3) = 1373 / 100"
    by simp_all
  note sv = single_vocabulary [OF run len]
  have c1: "country_idx (df ?L ! 3) = 0" and c2: "platform_idx (df ?L ! 3) = 0"
    and c3: "segment_idx (df ?L ! 3) = 0" and c4: "category_effect ?L ! 3 = 0"
    and c5: "value (df ?L ! 3) = base_value ?L ! 3 * (1 + group_effect ?L ! 3) + value_noise ?L ! 3"
    and c6: "country (df ?L ! 3) = ''US''" and c7: "platform (df ?L ! 3) = ''iOS''"
    and c8: "user_segment (df ?L ! 3) = ''Segment_1''"
    and c9: "base_value ?L ! 3 = base_value_of (age (df ?L ! 3)) (engagement_score (df ?L ! 3))"
    and c10: "group_effect ?L ! 3 =
       (if abgroup (df ?L ! 3) = ''b'' then treatment_draw ?L ! 3 else other_draw ?L ! 3)"
    using sv by blast+
  show ?thesis
    by (rule exI [where x = "?L"], rule exI [where x = 120])
      (intro conjI run len vals c1 c2 c3 c4 c5 c6 c7 c8 c9 c10)
qed



subsection \<open>The two ranges of the group effect\<close>





subsection \<open>The pre-period outcome and the group effect\<close>

lemma DataFrame_pre_test_column:
  assumes "length c12 = length c1"
  shows "map pre_test_value (DataFrame c1 c2 c3 c4 c5 c6 c7 c8 c9 c10 c11 c12) = c12"
proof -
  have "map pre_test_value (DataFrame c1 c2 c3 c4 c5 c6 c7 c8 c9 c10 c11 c12) =
          map ((!) c12) [0 ..< length c12]"
    by (simp add: DataFrame_def assms o_def)
  then show ?thesis
    by (simp add: map_nth)
qed

lemma gen_locals_pre_independent:
  assumes "generate_synthetic_data_locals R n cs ps ss abg b nl sd g0 = Inr (L, gf)"
    and "generate_synthetic_data_locals R n cs ps ss abg' b' nl sd g0' = Inr (L', gf')"
  shows "map pre_test_value (df L') = map pre_test_value (df L)"
proof -
  from assms(1) obtain g1 g2 g3 g4 g5 g6 g7 g8 g9 g10 g11 g12 g13 g14 g15 g16
     c_country c_platform c_segment c_abgroup c_age r ci pi si u1 u2 u3 c_value c_pre
  where ops: "seed R sd g0 = Inr ((), g1)"
     "choice R cs n None g1 = Inr (c_country, g2)"
     "choice R ps n None g2 = Inr (c_platform, g3)"
     "choice R ss n None g3 = Inr (c_segment, g4)"
     "choice R abg n (Some [1 / 3, 1 / 3, 1 / 3]) g4 = Inr (c_abgroup, g5)"
     "randint R 18 65 n g5 = Inr (c_age, g6)"
     "rand R n g6 = Inr (r, g7)"
     "series_apply (index_mod cs 3) c_country = Inr ci"
     "series_apply (index_mod ps 2) c_platform = Inr pi"
     "series_apply (index_mod ss 4) c_segment = Inr si"
     "uniform R (- 1) 5 n g7 = Inr (u1, g8)"
     "uniform R (- 1) 5 n g8 = Inr (u2, g9)"
     "uniform R (- 1) 5 n g9 = Inr (u3, g10)"
     "uniform R (fst (treatment_range b)) (snd (treatment_range b)) n g10 =
           Inr (treatment_draw L, g11)"
     "uniform R (fst (other_range b)) (snd (other_range b)) n g11 = Inr (other_draw L, g12)"
     "normal R 0 nl n g12 = Inr (value_noise L, g13)"
     "normal R 1 0.5 n g13 = Inr (pre_coupling L, g14)"
     "normal R 0 0.05 n g14 = Inr (pre_scale L, g15)"
     "uniform R (- 1) 1 n g15 = Inr (pre_oscillation L, g16)"
     "normal R (- 1) 1 n g16 = Inr (pre_noise L, gf)"
    and L: "df L = DataFrame [1 .. n] c_country c_platform c_segment c_abgroup c_age
                  (map (\<lambda>x. x * 10) r) ci pi si c_value c_pre"
     "base_value L = map2 base_value_of c_age (map (\<lambda>x. x * 10) r)"
     "country_effect L = map2 (\<lambda>u k. u * real k) u1 ci"
     "platform_effect L = map2 (\<lambda>u k. u * real k) u2 pi"
     "segment_effect L = map2 (\<lambda>u k. u * real k) u3 si"
     "category_effect L =
           map2 (+) (map2 (+) (country_effect L) (platform_effect L)) (segment_effect L)"
     "group_effect L =
           np_where (map (\<lambda>x. x = ''b'') c_abgroup) (treatment_draw L) (other_draw L)"
     "c_value =
           map2 (+)
             (map2 (*) (map2 (*) (base_value L) (map (\<lambda>c. 1 + c) (category_effect L)))
                (map (\<lambda>e. 1 + e) (group_effect L)))
             (value_noise L)"
     "c_pre =
           map2 (+)
             (map2 (+)
                (map2 (*)
                   (map2 (*) (base_value L)
                      (map (\<lambda>c. 1 + c) (map2 (*) (pre_coupling L) (category_effect L))))
                   (map (\<lambda>e. 1 + e) (pre_scale L)))
                (map2 (*) (map (\<lambda>e. 0.5 * sin (e / 2)) (map (\<lambda>x. x * 10) r))
                   (pre_oscillation L)))
             (pre_noise L)"
    by (rule gen_locals_runE)
  from assms(2) obtain g1' g2' g3' g4' g5' g6' g7' g8' g9' g10' g11' g12' g13' g14' g15' g16'
     c_country' c_platform' c_segment' c_abgroup' c_age' r' ci' pi' si' u1' u2' u3' c_value' c_pre'
  where ops': "seed R sd g0' = Inr ((), g1')"
     "choice R cs n None g1' = Inr (c_country', g2')"
     "choice R ps n None g2' = Inr (c_platform', g3')"
     "choice R ss n None g3' = Inr (c_segment', g4')"
     "choice R abg' n (Some [1 / 3, 1 / 3, 1 / 3]) g4' = Inr (c_abgroup', g5')"
     "randint R 18 65 n g5' = Inr (c_age', g6')"
     "rand R n g6' = Inr (r', g7')"
     "series_apply (index_mod cs 3) c_country' = Inr ci'"
     "series_apply (index_mod ps 2) c_platform' = Inr pi'"
     "series_apply (index_mod ss 4) c_segment' = Inr si'"
     "uniform R (- 1) 5 n g7' = Inr (u1', g8')"
     "uniform R (- 1) 5 n g8' = Inr (u2', g9')"
     "uniform R (- 1) 5 n g9' = Inr (u3', g10')"
     "uniform R (fst (treatment_range b')) (snd (treatment_range b')) n g10' =
           Inr (treatment_draw L', g11')"
     "uniform R (fst (other_range b')) (snd (other_range b')) n g11' = Inr (other_draw L', g12')"
     "normal R 0 nl n g12' = Inr (value_noise L', g13')"
     "normal R 1 0.5 n g13' = Inr (pre_coupling L', g14')"
     "normal R 0 0.05 n g14' = Inr (pre_scale L', g15')"
     "uniform R (- 1) 1 n g15' = Inr (pre_oscillation L', g16')"
     "normal R (- 1) 1 n g16' = Inr (pre_noise L', gf')"
    and L': "df L' = DataFrame [1 .. n] c_country' c_platform' c_segment' c_abgroup' c_age'
                  (map (\<lambda>x. x * 10) r') ci' pi' si' c_value' c_pre'"
     "base_value L' = map2 base_value_of c_age' (map (\<lambda>x. x * 10) r')"
     "country_effect L' = map2 (\<lambda>u k. u * real k) u1' ci'"
     "platform_effect L' = map2 (\<lambda>u k. u * real k) u2' pi'"
     "segment_effect L' = map2 (\<lambda>u k. u * real k) u3' si'"
     "category_effect L' =
           map2 (+) (map2 (+) (country_effect L') (platform_effect L')) (segment_effect L')"
     "group_effect L' =
           np_where (map (\<lambda>x. x = ''b'') c_abgroup') (treatment_draw L') (other_draw L')"
     "c_value' =
           map2 (+)
             (map2 (*) (map2 (*) (base_value L') (map (\<lambda>c. 1 + c) (category_effect L')))
                (map (\<lambda>e. 1 + e) (group_effect L')))
             (value_noise L')"
     "c_pre' =
           map2 (+)
             (map2 (+)
                (map2 (*)
                   (map2 (*) (base_value L')
                      (map (\<lambda>c. 1 + c) (map2 (*) (pre_coupling L') (category_effect L'))))
                   (map (\<lambda>e. 1 + e) (pre_scale L')))
                (map2 (*) (map (\<lambda>e. 0.5 * sin (e / 2)) (map (\<lambda>x. x * 10) r'))
                   (pre_oscillation L')))
             (pre_noise L')"
    by (rule gen_locals_runE)
  note sh = gen_locals_shape [OF assms(1)]
  have e1: "g1' = g1"
    using ops(1) ops'(1) by (simp add: seed_Inr_iff)
  have e2: "c_country' = c_country" "g2' = g2"
    using ops(2) ops'(2) unfolding e1 by simp_all
  have e3: "c_platform' = c_platform" "g3' = g3"
    using ops(3) ops'(3) unfolding e2 by simp_all
  have e4: "c_segment' = c_segment" "g4' = g4"
    using ops(4) ops'(4) unfolding e3 by simp_all
  have e5: "g5' = g5"
    using ops(5) ops'(5) unfolding e4 by (simp add: choice_thirds_Inr_iff)
  have e6: "c_age' = c_age" "g6' = g6"
    using ops(6) ops'(6) unfolding e5 by simp_all
  have e7: "r' = r" "g7' = g7"
    using ops(7) ops'(7) unfolding e6 by simp_all
  have e8: "ci' = ci" "pi' = pi" "si' = si"
    using ops(8,9,10) ops'(8,9,10) unfolding e2 e3 e4 by simp_all
  have e11: "u1' = u1" "g8' = g8"
    using ops(11) ops'(11) unfolding e7 by simp_all
  have e12: "u2' = u2" "g9' = g9"
    using ops(12) ops'(12) unfolding e11 by simp_all
  have e13: "u3' = u3" "g10' = g10"
    using ops(13) ops'(13) unfolding e12 by simp_all
  have e14: "g11' = g11"
    using ops(14) ops'(14) unfolding e13 by (simp add: uniform_Inr_iff)
  have e15: "g12' = g12"
    using ops(15) ops'(15) unfolding e14 by (simp add: uniform_Inr_iff)
  have e16: "value_noise L' = value_noise L" "g13' = g13"
    using ops(16) ops'(16) unfolding e15 by simp_all
  have e17: "pre_coupling L' = pre_coupling L" "g14' = g14"
    using ops(17) ops'(17) unfolding e16 by simp_all
  have e18: "pre_scale L' = pre_scale L" "g15' = g15"
    using ops(18) ops'(18) unfolding e17 by simp_all
  have e19: "pre_oscillation L' = pre_oscillation L" "g16' = g16"
    using ops(19) ops'(19) unfolding e18 by simp_all
  have e20: "pre_noise L' = pre_noise L"
    using ops(20) ops'(20) unfolding e19 by simp
  have b: "base_value L' = base_value L"
    unfolding L(2) L'(2) e6 e7 by (rule refl)
  have c: "category_effect L' = category_effect L"
    unfolding L(6) L'(6) L(3,4,5) L'(3,4,5) e8 e11 e12 e13 by (rule refl)
  have pre: "c_pre' = c_pre"
    unfolding L(9) L'(9) b c e7 e17 e18 e19 e20 by (rule refl)
  have l3: "length c_age = nat n" "length r = nat n"
    using ops(6,7) by (simp_all add: randint_Inr_iff rand_def random_sample_Inr_iff length_draws)
  have len: "length c_pre = length [1 .. n]"
    unfolding L(9) using sh l3 by simp
  have "map pre_test_value (df L) = c_pre"
    unfolding L(1) using len by (rule DataFrame_pre_test_column)
  moreover have "map pre_test_value (df L') = c_pre'"
    unfolding L'(1) using len pre by (intro DataFrame_pre_test_column) simp
  ultimately show ?thesis
    using pre by simp
qed

text \<open>
  C8. The group effect does not enter the pre-period outcome. Take two returning runs that
  differ at most in the labels \<open>ab_groups\<close>, in \<open>base_increase_percentage\<close> and in
  the generator state they start from, with the same seed and the same other parameters.
  The labels decide every user's \<open>abgroup\<close> and, with \<open>base_increase_percentage\<close>, every
  group effect; the two tables still have the same \<open>pre_test_value\<close> column. In each
  row that column is computed from the base value, the category effect, the engagement
  score and four noise draws of its own.
\<close>

theorem pre_test_value_ignores_group:
  assumes "generate_synthetic_data_locals R n cs ps ss abg b nl sd g0 = Inr (L, gf)"
    and "generate_synthetic_data_locals R n cs ps ss abg' b' nl sd g0' = Inr (L', gf')"
  shows "map pre_test_value (df L') = map pre_test_value (df L) \<and>
         (\<forall>i<length (df L).
            pre_test_value (df L ! i) =
              base_value L ! i * (1 + pre_coupling L ! i * category_effect L ! i) *
                (1 + pre_scale L ! i) +
              0.5 * sin (engagement_score (df L ! i) / 2) * pre_oscillation L ! i +
              pre_noise L ! i)"
  using gen_locals_pre_independent [OF assms] gen_locals_row(3) [OF assms(1)]
  by blast

theorem pre_test_value_ignores_group_witness:
  "\<exists>L gf L' gf'.
     generate_synthetic_data_locals counter_rng 3 [''US'', ''UK''] [''iOS'', ''Android'']
       [''Segment_1'', ''Segment_2''] [''a1'', ''a2'', ''a3''] 0.05 1 40 (0::nat) = Inr (L, gf) \<and>
     generate_synthetic_data_locals counter_rng 3 [''US'', ''UK''] [''iOS'', ''Android'']
       [''Segment_1'', ''Segment_2''] [''b'', ''b'', ''b''] 0.5 1 40 (7::nat) = Inr (L', gf') \<and>
     2 < length (df L) \<and> 2 < length (df L') \<and>
     abgroup (df L ! 2) \<noteq> ''b'' \<and> abgroup (df L' ! 2) = ''b'' \<and>
     pre_test_value (df L' ! 2) = pre_test_value (df L ! 2)"
proof -
  obtain L gf where run:
    "generate_synthetic_data_locals counter_rng 3 [''US'', ''UK''] [''iOS'', ''Android'']
       [''Segment_1'', ''Segment_2''] [''a1'', ''a2'', ''a3''] 0.05 1 40 (0::nat) = Inr (L, gf)"
    using gen_locals_succeeds [OF rng_ok_counter, where sd = 40 and n = 3
        and cs = "[''US'', ''UK'']" and ps = "[''iOS'', ''Android'']"
        and ss = "[''Segment_1'', ''Segment_2'']" and abg = "[''a1'', ''a2'', ''a3'']"
        and nl = 1 and b = "0.05" and g = 0]
    by (auto simp: float_overflow_def)
  obtain L' gf' where run':
    "generate_synthetic_data_locals counter_rng 3 [''US'', ''UK''] [''iOS'', ''Android'']
       [''Segment_1'', ''Segment_2''] [''b'', ''b'', ''b''] 0.5 1 40 (7::nat) = Inr (L', gf')"
    using gen_locals_succeeds [OF rng_ok_counter, where sd = 40 and n = 3
        and cs = "[''US'', ''UK'']" and ps = "[''iOS'', ''Android'']"
        and ss = "[''Segment_1'', ''Segment_2'']" and abg = "[''b'', ''b'', ''b'']"
        and nl = 1 and b = "0.5" and g = 7]
    by (auto simp: float_overflow_def)
  have len: "2 < length (df L)" "2 < length (df L')"
    using gen_locals_shape [OF run] gen_locals_shape [OF run'] by simp_all
  have lab: "abgroup (df L ! 2) \<noteq> ''b''" "abgroup (df L' ! 2) = ''b''"
    using gen_locals_row(16) [OF run len(1)] gen_locals_row(16) [OF run' len(2)] by auto
  have "map pre_test_value (df L') ! 2 = map pre_test_value (df L) ! 2"
    using pre_test_value_ignores_group [OF run run'] by simp
  then have "pre_test_value (df L' ! 2) = pre_test_value (df L ! 2)"
    using len by simp
  with run run' len lab show ?thesis
    by blast
qed

subsection \<open>Which parameters are refused\<close>






















subsection \<open>The projected tables\<close>

lemma filter_distinct_key:
  assumes "distinct (map f xs)" and "i < length xs"
  shows "filter (\<lambda>x. f x = f (xs ! i)) xs = [xs ! i]"
  using assms
proof (induction xs arbitrary: i)
  case Nil
  then show ?case by simp
next
  case (Cons x xs)
  show ?case
  proof (cases i)
    case 0
    have "filter (\<lambda>y. f y = f x) xs = []"
      using Cons.prems(1) by (auto simp: filter_empty_conv) (metis image_eqI)
    with 0 show ?thesis by simp
  next
    case (Suc j)
    then have j: "j < length xs"
      using Cons.prems(2) by simp
    then have "f (xs ! j) \<in> f ` set xs"
      by simp
    then have "f x \<noteq> f (xs ! j)"
      using Cons.prems(1) by auto
    moreover have "filter (\<lambda>y. f y = f (xs ! j)) xs = [xs ! j]"
      using Cons.IH [OF _ j] Cons.prems(1) by simp
    ultimately show ?thesis
      using Suc by simp
  qed
qed


lemma create_dataframes_tables:
  "create_dataframes d =
     (map (\<lambda>u. \<lparr>ev_timestamp = ts_2022_12_10, ev_userid = userid u,
                 event_name = ''purchase'', purchase_value = value u\<rparr>) d @
      map (\<lambda>u. \<lparr>ev_timestamp = ts_2022_12_01, ev_userid = userid u,
                 event_name = ''purchase'', purchase_value = pre_test_value u\<rparr>) d,
      map (\<lambda>u. \<lparr>al_timestamp = ts_2022_12_05, al_userid = userid u,
                 al_abgroup = abgroup u\<rparr>) d,
      map (\<lambda>u. \<lparr>pr_userid = userid u, pr_age = age u, pr_country = country u,
                 device_type = platform u, membership_status = ''Free''\<rparr>) d)"
  by (simp add: create_dataframes_def)

lemma ts_distinct:
  "ts_2022_12_10 \<noteq> ts_2022_12_01" "ts_2022_12_01 \<noteq> ts_2022_12_10"
  by (simp_all add: ts_2022_12_10_def ts_2022_12_01_def)

lemma create_dataframes_per_user:
  assumes "distinct (map userid d)" and "i < length d"
    and "create_dataframes d = (ev, al, pr)"
  shows "length (filter (\<lambda>e. ev_userid e = userid (d ! i)) ev) = 2 \<and>
         filter (\<lambda>e. ev_userid e = userid (d ! i) \<and> ev_timestamp e = ts_2022_12_01) ev =
           [\<lparr>ev_timestamp = ts_2022_12_01, ev_userid = userid (d ! i),
             event_name = ''purchase'', purchase_value = pre_test_value (d ! i)\<rparr>] \<and>
         filter (\<lambda>e. ev_userid e = userid (d ! i) \<and> ev_timestamp e = ts_2022_12_10) ev =
           [\<lparr>ev_timestamp = ts_2022_12_10, ev_userid = userid (d ! i),
             event_name = ''purchase'', purchase_value = value (d ! i)\<rparr>] \<and>
         length (filter (\<lambda>a. al_userid a = userid (d ! i)) al) = 1 \<and>
         length (filter (\<lambda>p. pr_userid p = userid (d ! i)) pr) = 1"
proof -
  note one = filter_distinct_key [OF assms(1,2)]
  have ev: "ev = map (\<lambda>u. \<lparr>ev_timestamp = ts_2022_12_10, ev_userid = userid u,
                 event_name = ''purchase'', purchase_value = value u\<rparr>) d @
      map (\<lambda>u. \<lparr>ev_timestamp = ts_2022_12_01, ev_userid = userid u,
                 event_name = ''purchase'', purchase_value = pre_test_value u\<rparr>) d"
    and al: "al = map (\<lambda>u. \<lparr>al_timestamp = ts_2022_12_05, al_userid = userid u,
                 al_abgroup = abgroup u\<rparr>) d"
    and pr: "pr = map (\<lambda>u. \<lparr>pr_userid = userid u, pr_age = age u, pr_country = country u,
                 device_type = platform u, membership_status = ''Free''\<rparr>) d"
    using assms(3) by (simp_all add: create_dataframes_tables)
  show ?thesis
    unfolding ev al pr by (simp add: filter_map o_def one ts_distinct)
qed

lemma gen_userid_column:
  assumes "generate_synthetic_data_locals R n cs ps ss abg b nl sd g = Inr (L, gf)"
  shows "map userid (df L) = [1 .. n]"
proof (rule nth_equalityI)
  note sh = gen_locals_shape [OF assms]
  show "length (map userid (df L)) = length [1 .. n]"
    using sh by simp
  fix i
  assume "i < length (map userid (df L))"
  then have i: "i < length (df L)"
    by simp
  then have "i < nat n"
    using sh by simp
  then show "map userid (df L) ! i = [1 .. n] ! i"
    using i gen_locals_row(1) [OF assms i] by (simp add: nth_upto_from_one)
qed

lemma gen_Inr_locals:
  assumes "generate_synthetic_data R n cs ps ss abg b nl sd g = Inr d"
  shows "\<exists>L gf. generate_synthetic_data_locals R n cs ps ss abg b nl sd g = Inr (L, gf) \<and>
                df L = d"
  using assms by (auto simp: generate_synthetic_data_def split: sum.splits)

lemma timestamp_order:
  "timestamp_less ts_2022_12_01 ts_2022_12_05" "timestamp_less ts_2022_12_05 ts_2022_12_10"
  "timestamp_less ts_2022_12_01 ts_2022_12_10"
  by (simp_all add: timestamp_less_def ts_2022_12_01_def ts_2022_12_05_def ts_2022_12_10_def)

text \<open>
  C6. For a table \<open>d\<close> returned by the generator for \<open>num_users = n\<close>, which has
  \<open>n\<close> rows with the userids \<open>1, ..., n\<close>, the projector returns an event log of
  \<open>2n\<close> rows and an allocation table and a properties table of \<open>n\<close> rows each. Every
  userid \<open>u\<close> from 1 to \<open>n\<close> has exactly two events: exactly one at the earlier
  timestamp, whose \<open>purchase_value\<close> is the user's \<open>pre_test_value\<close>, and exactly one
  at the later timestamp, whose \<open>purchase_value\<close> is the user's \<open>value\<close>. It has exactly
  one row in the allocation table and exactly one in the properties table.
\<close>

theorem projector_cardinality:
  assumes "generate_synthetic_data R n cs ps ss abg b nl sd g = Inr d"
    and "create_dataframes d = (ev, al, pr)"
  shows "length d = nat n \<and> map userid d = [1 .. n] \<and>
         length ev = 2 * nat n \<and> length al = nat n \<and> length pr = nat n \<and>
         timestamp_less ts_2022_12_01 ts_2022_12_10 \<and>
         (\<forall>u\<in>{1 .. n}.
            userid (d ! nat (u - 1)) = u \<and>
            length (filter (\<lambda>e. ev_userid e = u) ev) = 2 \<and>
            filter (\<lambda>e. ev_userid e = u \<and> ev_timestamp e = ts_2022_12_01) ev =
              [\<lparr>ev_timestamp = ts_2022_12_01, ev_userid = u, event_name = ''purchase'',
                purchase_value = pre_test_value (d ! nat (u - 1))\<rparr>] \<and>
            filter (\<lambda>e. ev_userid e = u \<and> ev_timestamp e = ts_2022_12_10) ev =
              [\<lparr>ev_timestamp = ts_2022_12_10, ev_userid = u, event_name = ''purchase'',
                purchase_value = value (d ! nat (u - 1))\<rparr>] \<and>
            length (filter (\<lambda>a. al_userid a = u) al) = 1 \<and>
            length (filter (\<lambda>p. pr_userid p = u) pr) = 1)"
proof -
  obtain L gf where run: "generate_synthetic_data_locals R n cs ps ss abg b nl sd g = Inr (L, gf)"
    and d: "df L = d"
    using gen_Inr_locals [OF assms(1)] by blast
  have len: "length d = nat n"
    using gen_locals_shape [OF run] d by simp
  have ids: "map userid d = [1 .. n]"
    using gen_userid_column [OF run] d by simp
  then have dist: "distinct (map userid d)"
    by simp
  have tabs: "length ev = 2 * nat n" "length al = nat n" "length pr = nat n"
    using assms(2) len by (auto simp: create_dataframes_tables)
  have users: "userid (d ! nat (u - 1)) = u \<and>
            length (filter (\<lambda>e. ev_userid e = u) ev) = 2 \<and>
            filter (\<lambda>e. ev_userid e = u \<and> ev_timestamp e = ts_2022_12_01) ev =
              [\<lparr>ev_timestamp = ts_2022_12_01, ev_userid = u, event_name = ''purchase'',
                purchase_value = pre_test_value (d ! nat (u - 1))\<rparr>] \<and>
            filter (\<lambda>e. ev_userid e = u \<and> ev_timestamp e = ts_2022_12_10) ev =
              [\<lparr>ev_timestamp = ts_2022_12_10, ev_userid = u, event_name = ''purchase'',
                purchase_value = value (d ! nat (u - 1))\<rparr>] \<and>
            length (filter (\<lambda>a. al_userid a = u) al) = 1 \<and>
            length (filter (\<lambda>p. pr_userid p = u) pr) = 1"
    if u: "u \<in> {1 .. n}" for u
  proof -
    have i: "nat (u - 1) < length d"
      using u len by auto
    then have "map userid d ! nat (u - 1) = [1 .. n] ! nat (u - 1)"
      using ids by simp
    then have uid: "userid (d ! nat (u - 1)) = u"
      using i len u by (simp add: nth_upto_from_one)
    from create_dataframes_per_user [OF dist i assms(2)] uid show ?thesis
      by simp
  qed
  show ?thesis
    using len ids tabs timestamp_order(3) users by blast
qed

theorem projector_cardinality_witness:
  "\<exists>d ev al pr.
     generate_synthetic_data counter_rng 2 [''US'', ''UK''] [''iOS'', ''Android'', ''Web'']
       [''Segment_1'', ''Segment_2'', ''Segment_3'', ''Segment_4'', ''Segment_5'']
       [''a1'', ''a2'', ''b''] 0.05 1 40 (0::nat) = Inr d \<and>
     d =
       [\<lparr>userid = 1, country = ''US'', platform = ''iOS'', user_segment = ''Segment_5'',
         abgroup = ''a2'', age = 19, engagement_score = 5, country_idx = 0, platform_idx = 0,
         segment_idx = 0, value = 1621 / 100,
         pre_test_value = 3011 / 200 - sin (5 / 2) / 2\<rparr>,
        \<lparr>userid = 2, country = ''UK'', platform = ''Android'', user_segment = ''Segment_1'',
         abgroup = ''b'', age = 20, engagement_score = 15 / 2, country_idx = 1,
         platform_idx = 1, segment_idx = 0, value = 425 / 4,
         pre_test_value = 273 / 2 - sin (15 / 4) / 4\<rparr>] \<and>
     create_dataframes d = (ev, al, pr) \<and>
     length ev = 4 \<and> length al = 2 \<and> length pr = 2 \<and>
     length (filter (\<lambda>e. ev_userid e = 2) ev) = 2 \<and>
     filter (\<lambda>e. ev_userid e = 2 \<and> ev_timestamp e = ts_2022_12_01) ev =
       [\<lparr>ev_timestamp = ts_2022_12_01, ev_userid = 2, event_name = ''purchase'',
         purchase_value = 273 / 2 - sin (15 / 4) / 4\<rparr>] \<and>
     filter (\<lambda>e. ev_userid e = 2 \<and> ev_timestamp e = ts_2022_12_10) ev =
       [\<lparr>ev_timestamp = ts_2022_12_10, ev_userid = 2, event_name = ''purchase'',
         purchase_value = 425 / 4\<rparr>] \<and>
     length (filter (\<lambda>a. al_userid a = 2) al) = 1 \<and>
     length (filter (\<lambda>p. pr_userid p = 2) pr) = 1"
proof -
  let ?d = "[\<lparr>userid = 1, country = ''US'', platform = ''iOS'', user_segment = ''Segment_5'',
         abgroup = ''a2'', age = 19, engagement_score = 5, country_idx = 0, platform_idx = 0,
         segment_idx = 0, value = 1621 / 100,
         pre_test_value = 3011 / 200 - sin (5 / 2) / 2\<rparr>,
        \<lparr>userid = 2, country = ''UK'', platform = ''Android'', user_segment = ''Segment_1'',
         abgroup = ''b'', age = 20, engagement_score = 15 / 2, country_idx = 1,
         platform_idx = 1, segment_idx = 0, value = 425 / 4,
         pre_test_value = 273 / 2 - sin (15 / 4) / 4\<rparr>]"
  have run: "generate_synthetic_data counter_rng 2 [''US'', ''UK''] [''iOS'', ''Android'', ''Web'']
       [''Segment_1'', ''Segment_2'', ''Segment_3'', ''Segment_4'', ''Segment_5'']
       [''a1'', ''a2'', ''b''] 0.05 1 40 (0::nat) = Inr ?d"
    using example_run by (simp add: generate_synthetic_data_def)
  obtain ev al pr where tabs: "create_dataframes ?d = (ev, al, pr)"
    by (cases "create_dataframes ?d") blast
  have two: "(2::int) \<in> {1 .. 2}"
    by simp
  from projector_cardinality [OF run tabs] two
  have "length ev = 2 * nat 2 \<and> length al = nat 2 \<and> length pr = nat 2 \<and>
     length (filter (\<lambda>e. ev_userid e = 2) ev) = 2 \<and>
     filter (\<lambda>e. ev_userid e = 2 \<and> ev_timestamp e = ts_2022_12_01) ev =
       [\<lparr>ev_timestamp = ts_2022_12_01, ev_userid = 2, event_name = ''purchase'',
         purchase_value = pre_test_value (?d ! nat (2 - 1))\<rparr>] \<and>
     filter (\<lambda>e. ev_userid e = 2 \<and> ev_timestamp e = ts_2022_12_10) ev =
       [\<lparr>ev_timestamp = ts_2022_12_10, ev_userid = 2, event_name = ''purchase'',
         purchase_value = value (?d ! nat (2 - 1))\<rparr>] \<and>
     length (filter (\<lambda>a. al_userid a = 2) al) = 1 \<and>
     length (filter (\<lambda>p. pr_userid p = 2) pr) = 1"
    by blast
  then have "length ev = 4 \<and> length al = 2 \<and> length pr = 2 \<and>
     length (filter (\<lambda>e. ev_userid e = 2) ev) = 2 \<and>
     filter (\<lambda>e. ev_userid e = 2 \<and> ev_timestamp e = ts_2022_12_01) ev =
       [\<lparr>ev_timestamp = ts_2022_12_01, ev_userid = 2, event_name = ''purchase'',
         purchase_value = 273 / 2 - sin (15 / 4) / 4\<rparr>] \<and>
     filter (\<lambda>e. ev_userid e = 2 \<and> ev_timestamp e = ts_2022_12_10) ev =
       [\<lparr>ev_timestamp = ts_2022_12_10, ev_userid = 2, event_name = ''purchase'',
         purchase_value = 425 / 4\<rparr>] \<and>
     length (filter (\<lambda>a. al_userid a = 2) al) = 1 \<and>
     length (filter (\<lambda>p. pr_userid p = 2) pr) = 1"
    by simp
  with run tabs show ?thesis
    by blast
qed

text \<open>
  C7. In the projected tables of any population table, the row of user \<open>i\<close> gives one
  event stamped 1 December 2022 that carries \<open>pre_test_value\<close>, one allocation stamped
  5 December 2022 and one event stamped 10 December 2022 that carries \<open>value\<close>, all with
  that row's userid; the first timestamp is strictly earlier than the second, and the
  second strictly earlier than the third. The event log has no other rows.
\<close>

theorem timestamp_ordering:
  assumes "create_dataframes d = (ev, al, pr)" and "i < length d"
  shows "length ev = 2 * length d \<and> length al = length d \<and>
         ev_userid (ev ! (length d + i)) = userid (d ! i) \<and>
         purchase_value (ev ! (length d + i)) = pre_test_value (d ! i) \<and>
         al_userid (al ! i) = userid (d ! i) \<and>
         ev_userid (ev ! i) = userid (d ! i) \<and>
         purchase_value (ev ! i) = value (d ! i) \<and>
         timestamp_less (ev_timestamp (ev ! (length d + i))) (al_timestamp (al ! i)) \<and>
         timestamp_less (al_timestamp (al ! i)) (ev_timestamp (ev ! i)) \<and>
         ev_timestamp (ev ! (length d + i)) = \<lparr>year = 2022, month = 12, day = 1\<rparr> \<and>
         al_timestamp (al ! i) = \<lparr>year = 2022, month = 12, day = 5\<rparr> \<and>
         ev_timestamp (ev ! i) = \<lparr>year = 2022, month = 12, day = 10\<rparr>"
proof -
  have ev: "ev = map (\<lambda>u. \<lparr>ev_timestamp = ts_2022_12_10, ev_userid = userid u,
                 event_name = ''purchase'', purchase_value = value u\<rparr>) d @
      map (\<lambda>u. \<lparr>ev_timestamp = ts_2022_12_01, ev_userid = userid u,
                 event_name = ''purchase'', purchase_value = pre_test_value u\<rparr>) d"
    and al: "al = map (\<lambda>u. \<lparr>al_timestamp = ts_2022_12_05, al_userid = userid u,
                 al_abgroup = abgroup u\<rparr>) d"
    using assms(1) by (simp_all add: create_dataframes_tables)
  have post: "ev ! i = \<lparr>ev_timestamp = ts_2022_12_10, ev_userid = userid (d ! i),
                 event_name = ''purchase'', purchase_value = value (d ! i)\<rparr>"
    unfolding ev using assms(2) by (simp add: nth_append)
  have pre: "ev ! (length d + i) = \<lparr>ev_timestamp = ts_2022_12_01, ev_userid = userid (d ! i),
                 event_name = ''purchase'', purchase_value = pre_test_value (d ! i)\<rparr>"
    unfolding ev using assms(2) by (simp add: nth_append)
  have alloc: "al ! i = \<lparr>al_timestamp = ts_2022_12_05, al_userid = userid (d ! i),
                 al_abgroup = abgroup (d ! i)\<rparr>"
    unfolding al using assms(2) by simp
  have lens: "length ev = 2 * length d" "length al = length d"
    unfolding ev al by simp_all
  show ?thesis
    unfolding post pre alloc using lens timestamp_order
    by (simp add: ts_2022_12_01_def ts_2022_12_05_def ts_2022_12_10_def)
qed

theorem timestamp_ordering_witness:
  "\<exists>ev al pr.
     create_dataframes
       [\<lparr>userid = 1, country = ''US'', platform = ''iOS'', user_segment = ''Segment_1'',
         abgroup = ''b'', age = 62, engagement_score = 5 / 2, country_idx = 0,
         platform_idx = 0, segment_idx = 0, value = 177 / 10,
         pre_test_value = 3727 / 200\<rparr>] = (ev, al, pr) \<and>
     ev = [\<lparr>ev_timestamp = ts_2022_12_10, ev_userid = 1, event_name = ''purchase'',
            purchase_value = 177 / 10\<rparr>,
           \<lparr>ev_timestamp = ts_2022_12_01, ev_userid = 1, event_name = ''purchase'',
            purchase_value = 3727 / 200\<rparr>] \<and>
     al = [\<lparr>al_timestamp = ts_2022_12_05, al_userid = 1, al_abgroup = ''b''\<rparr>] \<and>
     timestamp_less (ev_timestamp (ev ! 1)) (al_timestamp (al ! 0)) \<and>
     timestamp_less (al_timestamp (al ! 0)) (ev_timestamp (ev ! 0)) \<and>
     ev_timestamp (ev ! 1) = \<lparr>year = 2022, month = 12, day = 1\<rparr> \<and>
     al_timestamp (al ! 0) = \<lparr>year = 2022, month = 12, day = 5\<rparr> \<and>
     ev_timestamp (ev ! 0) = \<lparr>year = 2022, month = 12, day = 10\<rparr>"
proof -
  let ?d = "[\<lparr>userid = 1, country = ''US'', platform = ''iOS'', user_segment = ''Segment_1'',
         abgroup = ''b'', age = 62, engagement_score = 5 / 2, country_idx = 0,
         platform_idx = 0, segment_idx = 0, value = 177 / 10,
         pre_test_value = 3727 / 200\<rparr>]"
  let ?ev = "[\<lparr>ev_timestamp = ts_2022_12_10, ev_userid = 1, event_name = ''purchase'',
            purchase_value = 177 / 10\<rparr>,
           \<lparr>ev_timestamp = ts_2022_12_01, ev_userid = 1, event_name = ''purchase'',
            purchase_value = 3727 / 200\<rparr>]"
  let ?al = "[\<lparr>al_timestamp = ts_2022_12_05, al_userid = 1, al_abgroup = ''b''\<rparr>]"
  let ?pr = "[\<lparr>pr_userid = 1, pr_age = 62, pr_country = ''US'', device_type = ''iOS'',
               membership_status = ''Free''\<rparr>]"
  have tabs: "create_dataframes ?d = (?ev, ?al, ?pr)"
    by (simp add: create_dataframes_def)
  have i: "0 < length ?d"
    by simp
  from timestamp_ordering [OF tabs i] tabs show ?thesis
    by simp
qed

end
